theory Spec2Isabelle
  imports Complex_Main "HOL-Library.AList"
begin

section \<open>The object oriented API of SCoT (scot/ooapi.py)\<close>

text \<open>
  The class \<open>SCoT\<close> of \<open>scot/ooapi.py\<close> drives a pipeline: raw data, blind source
  separation (MVARICA), vector autoregressive (VAR) fitting, spectral connectivity, and a
  sliding window variant of the last two. The class is embedded as a record of its
  attributes; every method takes the record and returns the record after the call
  together with either the exception raised or the value returned. The collaborators
  that live in other modules (\<open>varica.mvarica\<close>, \<open>var.fit\<close>, \<open>var.fit_multiclass\<close>,
  \<open>connectivity.Connectivity\<close>, \<open>eegtopo.topoplot.Topoplot\<close>) are parameters, collected in
  one record of functions.
\<close>

subsection \<open>Exceptions\<close>

datatype error =
    RuntimeError string
  | ValueError
  | IndexError
  | KeyError
  | AttributeError
  | ZeroDivisionError
  | ComputationError string

text \<open>
  \<open>RuntimeError\<close> carries the message of the \<open>raise\<close> statement. \<open>ComputationError\<close>
  stands for whatever a collaborator raises on its own account.
\<close>

subsection \<open>Arrays\<close>

text \<open>
  A two dimensional array is the list of its rows and the length of a row (which an array
  with no row still has); its shape is \<open>(length (rows m), ncols m)\<close>.
\<close>

record 'v matrix =
  ncols :: nat
  rows :: "'v list list"

text \<open>
  A three dimensional array with the axes (sample, channel, trial): \<open>samples a ! n ! m ! t\<close>
  is the entry \<open>a[n, m, t]\<close>; its shape is \<open>(length (samples a), chans a, trials a)\<close>.
\<close>

record 'v array3 =
  chans :: nat
  trials :: nat
  samples :: "'v list list list"

definition shape3 :: "'v array3 \<Rightarrow> nat \<times> nat \<times> nat" where
  "shape3 a = (length (samples a), chans a, trials a)"

definition wf_matrix :: "'v matrix \<Rightarrow> bool" where
  "wf_matrix m = list_all (\<lambda>r. length r = ncols m) (rows m)"

definition wf_array3 :: "'v array3 \<Rightarrow> bool" where
  "wf_array3 a =
     list_all (\<lambda>s. length s = chans a \<and> list_all (\<lambda>c. length c = trials a) s) (samples a)"

text \<open>What \<open>setData\<close> may be given: an array of at most three dimensions.\<close>

datatype 'v ndarray =
    A0 'v
  | A1 "'v list"
  | A2 "'v matrix"
  | A3 "'v array3"

text \<open>
  \<open>np.atleast_3d\<close>: a scalar becomes an array of shape \<open>(1, 1, 1)\<close>, an array of shape
  \<open>(N)\<close> one of shape \<open>(1, N, 1)\<close>, an array of shape \<open>(M, N)\<close> one of shape \<open>(M, N, 1)\<close>,
  and an array of three dimensions is returned as it is.
\<close>

fun atleast_3d :: "'v ndarray \<Rightarrow> 'v array3" where
  "atleast_3d (A0 v) = \<lparr>chans = 1, trials = 1, samples = [[[v]]]\<rparr>"
| "atleast_3d (A1 xs) = \<lparr>chans = length xs, trials = 1, samples = [map (\<lambda>x. [x]) xs]\<rparr>"
| "atleast_3d (A2 m) =
     \<lparr>chans = ncols m, trials = 1, samples = map (\<lambda>r. map (\<lambda>x. [x]) r) (rows m)\<rparr>"
| "atleast_3d (A3 a) = a"

text \<open>
  Modelled from the spec: \<open>datatools.dot_special\<close> (scot/datatools.py is not among the
  sources). The spec calls its result "the Signal Array projected through the Unmixing
  Transform; shape mirrors the Signal Array with the channel axis reinterpreted as
  component axis", the Unmixing Transform having the shape (channels, components). So
  entry \<open>[n, k, t]\<close> of the result is the sum over the channels \<open>m\<close> of
  \<open>x[n, m, t] * a[m, k]\<close>. The product is not defined when the channel count of the array
  differs from the row count of the matrix; that case is an error here.
\<close>

definition dot_special :: "'v::semiring_0 array3 \<Rightarrow> 'v matrix \<Rightarrow> error + 'v array3" where
  "dot_special x a =
     (if chans x \<noteq> length (rows a) then Inl ValueError
      else Inr \<lparr>chans = ncols a, trials = trials x,
                samples = map (\<lambda>s. map (\<lambda>k. map (\<lambda>t. \<Sum>m \<leftarrow> [0..<chans x]. s ! m ! t * rows a ! m ! k)
                                                    [0..<trials x])
                                         [0..<ncols a])
                              (samples x)\<rparr>)"

text \<open>\<open>np.unique\<close>: the distinct values, sorted.\<close>

definition unique :: "'l::linorder list \<Rightarrow> 'l list" where
  "unique cl = sort (remdups cl)"

text \<open>\<open>np.arange(k)\<close> and \<open>np.arange(k) + n\<close>.\<close>

definition arange :: "int \<Rightarrow> int list" where
  "arange k = map int [0..<nat k]"

definition arange_plus :: "int \<Rightarrow> int \<Rightarrow> int list" where
  "arange_plus k n = map (\<lambda>j. j + n) (arange k)"

text \<open>
  \<open>x[win, :, :]\<close> for an index array \<open>win\<close>: every index must lie in \<open>[-N, N)\<close>, a negative
  one counts from the end, and anything else raises IndexError.
\<close>

definition take_rows :: "'v array3 \<Rightarrow> int list \<Rightarrow> error + 'v array3" where
  "take_rows a win =
     (let N = int (length (samples a))
      in if list_all (\<lambda>k. - N \<le> k \<and> k < N) win
         then Inr (a\<lparr>samples := map (\<lambda>k. samples a ! nat (if k < 0 then k + N else k)) win\<rparr>)
         else Inl IndexError)"

text \<open>\<open>range(0, stop, step)\<close> for a step that is not zero.\<close>

definition py_range :: "int \<Rightarrow> int \<Rightarrow> int list" where
  "py_range stop step =
     (if 0 < step then map (\<lambda>k. int k * step) [0..<nat ((stop + step - 1) div step)]
      else map (\<lambda>k. int k * step) [0..<nat ((stop + step + 1) div step)])"

subsection \<open>The attributes of the class\<close>

text \<open>
  \<open>var_model_\<close>, \<open>var_cov_\<close> and \<open>connectivity_\<close> hold either one object or a dictionary
  from class label to object. A dictionary is an association list, read with \<open>map_of\<close> and
  written with \<open>AList.update\<close>. An attribute \<open>self.data_\<close> is the field \<open>data'\<close>: the
  underscore that ends the attribute's name is written as a prime.

  An attribute that may be \<open>None\<close> is an option, and the tests \<open>x == None\<close> and
  \<open>x != None\<close> of the source are the tests whether the option is \<open>None\<close>: that is what the
  comparison of an array or a list with \<open>None\<close> gives with the numpy the code was written
  for. The window length, the window step, the model order and the number of frequency
  bins are Python integers; \<open>reducedim_\<close> is a number that is compared with 1.
\<close>

datatype ('l, 'a) fitted =
    Single 'a
  | PerClass "('l \<times> 'a) list"

record ('v, 'l, 'k, 'g, 'p) SCoT =
  data' :: "'v array3 option"
  cl' :: "'l list option"
  unmixing' :: "'v matrix option"
  mixing' :: "'v matrix option"
  activations' :: "'v array3 option"
  var_model' :: "('l, 'v matrix) fitted option"
  var_cov' :: "('l, 'v matrix) fitted option"
  var_order' :: int
  var_delta' :: "'v option"
  connectivity' :: "('l, 'k) fitted option"
  locations' :: "'g option"
  reducedim' :: rat
  nfft' :: int
  topo' :: "'g option"
  mixmaps' :: "'p list"
  unmixmaps' :: "'p list"

text \<open>
  \<open>topo_\<close> is the \<open>Topoplot\<close> object, which is made with no argument and then given the
  locations: it is modelled by the locations it was given. The attribute \<open>backend_\<close> is
  only handed to \<open>mvarica\<close> and is part of that parameter here.
\<close>

subsection \<open>The collaborators\<close>

record 'v mvarica_result =
  result_mixing :: "'v matrix"
  result_unmixing :: "'v matrix"
  result_B :: "'v matrix"
  result_C :: "'v matrix"
  result_delta :: "'v option"

text \<open>
  \<^item> \<open>mvarica X P retain_variance numcomp delta\<close> is \<open>varica.mvarica\<close>;
  \<^item> \<open>var_fit data P delta\<close> is \<open>var.fit\<close> with \<open>return_covariance=True\<close>;
  \<^item> \<open>var_fit_multiclass data cl P delta\<close> is \<open>var.fit_multiclass\<close>, which returns two
    dictionaries;
  \<^item> \<open>Connectivity B C nfft\<close> is the constructor of \<open>connectivity.Connectivity\<close>;
  \<^item> \<open>getattr_call con name\<close> is \<open>getattr(con, name)()\<close>: \<open>Inl AttributeError\<close> when the
    object has no attribute of that name;
  \<^item> \<open>zeros_c64 M nfft\<close> is the block of shape \<open>(M, M, nfft)\<close> that every window slot of
    \<open>np.zeros((M, M, Nstep, nfft), np.complex64)\<close> holds;
  \<^item> \<open>as_c64 M nfft r\<close> is what an assignment \<open>result[:, :, i, :] = r\<close> stores in a slot of
    that array: \<open>r\<close> broadcast to the shape \<open>(M, M, nfft)\<close> and converted to single
    precision complex numbers, or ValueError when the shapes do not agree;
  \<^item> \<open>get_map loc v\<close> is the map that \<open>set_values(v)\<close>, \<open>create_map()\<close> and \<open>get_map()\<close>
    give on a \<open>Topoplot\<close> with the locations \<open>loc\<close>.
\<close>

record ('v, 'l, 'k, 'g, 'p, 'r) ext =
  mvarica :: "'v array3 \<Rightarrow> int \<Rightarrow> rat option \<Rightarrow> rat option \<Rightarrow> 'v option
                \<Rightarrow> error + 'v mvarica_result"
  var_fit :: "'v array3 \<Rightarrow> int \<Rightarrow> 'v option \<Rightarrow> error + ('v matrix \<times> 'v matrix)"
  var_fit_multiclass :: "'v array3 \<Rightarrow> 'l list \<Rightarrow> int \<Rightarrow> 'v option
                \<Rightarrow> error + (('l \<times> 'v matrix) list \<times> ('l \<times> 'v matrix) list)"
  Connectivity :: "'v matrix \<Rightarrow> 'v matrix \<Rightarrow> int \<Rightarrow> 'k"
  getattr_call :: "'k \<Rightarrow> string \<Rightarrow> error + 'r"
  zeros_c64 :: "nat \<Rightarrow> nat \<Rightarrow> 'r"
  as_c64 :: "nat \<Rightarrow> nat \<Rightarrow> 'r \<Rightarrow> error + 'r"
  get_map :: "'g \<Rightarrow> 'v list \<Rightarrow> 'p"

subsection \<open>Construction and data\<close>

definition SCoT_init ::
  "int \<Rightarrow> 'v option \<Rightarrow> 'g option \<Rightarrow> rat \<Rightarrow> int \<Rightarrow> ('v, 'l, 'k, 'g, 'p) SCoT" where
  "SCoT_init var_order var_delta locations reducedim nfft =
     \<lparr>data' = None, cl' = None, unmixing' = None, mixing' = None, activations' = None,
      var_model' = None, var_cov' = None, var_order' = var_order, var_delta' = var_delta,
      connectivity' = None, locations' = locations, reducedim' = reducedim, nfft' = nfft,
      topo' = None, mixmaps' = [], unmixmaps' = []\<rparr>"

definition setData ::
  "('v::semiring_0, 'l, 'k, 'g, 'p) SCoT \<Rightarrow> 'v ndarray \<Rightarrow> 'l list option
     \<Rightarrow> ('v, 'l, 'k, 'g, 'p) SCoT \<times> (error + unit)" where
  "setData s data cl =
     (let s1 = s\<lparr>data' := Some (atleast_3d data), cl' := cl, var_model' := None,
                  var_cov' := None, connectivity' := None\<rparr>
      in case unmixing' s1 of
           None \<Rightarrow> (s1, Inr ())
         | Some U \<Rightarrow>
             (case dot_special (atleast_3d data) U of
                Inl e \<Rightarrow> (s1, Inl e)
              | Inr a \<Rightarrow> (s1\<lparr>activations' := Some a\<rparr>, Inr ())))"

subsection \<open>Decomposition and fitting\<close>

definition doMVARICA ::
  "('v, 'l, 'k, 'g, 'p, 'r) ext \<Rightarrow> ('v, 'l, 'k, 'g, 'p) SCoT
     \<Rightarrow> ('v, 'l, 'k, 'g, 'p) SCoT \<times> (error + unit)" where
  "doMVARICA ext s =
     (case data' s of
        None \<Rightarrow> (s, Inl (RuntimeError ''MVARICA requires data to be set''))
      | Some X \<Rightarrow>
          (let (rv, nc) = (if reducedim' s < 1 then (Some (reducedim' s), None)
                           else (None, Some (reducedim' s)))
           in case mvarica ext X (var_order' s) rv nc (var_delta' s) of
                Inl e \<Rightarrow> (s, Inl e)
              | Inr result \<Rightarrow>
                  (s\<lparr>mixing' := Some (result_mixing result),
                     unmixing' := Some (result_unmixing result),
                     var_model' := Some (Single (result_B result)),
                     var_cov' := Some (Single (result_C result)),
                     var_delta' := result_delta result,
                     connectivity' := Some (Single (Connectivity ext (result_B result)
                                                      (result_C result) (nfft' s)))\<rparr>,
                   Inr ())))"

text \<open>
  The loop of \<open>fitVAR\<close> over \<open>np.unique(self.cl')\<close>: \<open>con\<close> is the dictionary
  \<open>self.connectivity_\<close> built so far, which stays as it is when a label is missing from
  one of the fitted dictionaries.
\<close>

fun fitVAR_loop ::
  "('v, 'l, 'k, 'g, 'p, 'r) ext \<Rightarrow> ('l \<times> 'v matrix) list \<Rightarrow> ('l \<times> 'v matrix) list \<Rightarrow> int
     \<Rightarrow> 'l list \<Rightarrow> ('l \<times> 'k) list \<Rightarrow> ('l \<times> 'k) list \<times> (error + unit)" where
  "fitVAR_loop ext B C nfft [] con = (con, Inr ())"
| "fitVAR_loop ext B C nfft (c # cs) con =
     (case map_of B c of
        None \<Rightarrow> (con, Inl KeyError)
      | Some b \<Rightarrow>
          (case map_of C c of
             None \<Rightarrow> (con, Inl KeyError)
           | Some cv \<Rightarrow>
               fitVAR_loop ext B C nfft cs (AList.update c (Connectivity ext b cv nfft) con)))"

definition fitVAR ::
  "('v, 'l::linorder, 'k, 'g, 'p, 'r) ext \<Rightarrow> ('v, 'l, 'k, 'g, 'p) SCoT
     \<Rightarrow> ('v, 'l, 'k, 'g, 'p) SCoT \<times> (error + unit)" where
  "fitVAR ext s =
     (case activations' s of
        None \<Rightarrow>
          (s, Inl (RuntimeError
                     ''VAR fitting requires activations (call setData after doMVARICA)''))
      | Some act \<Rightarrow>
          (case cl' s of
             None \<Rightarrow>
               (case var_fit ext act (var_order' s) (var_delta' s) of
                  Inl e \<Rightarrow> (s, Inl e)
                | Inr (B, C) \<Rightarrow>
                    (s\<lparr>var_model' := Some (Single B), var_cov' := Some (Single C),
                       connectivity' := Some (Single (Connectivity ext B C (nfft' s)))\<rparr>,
                     Inr ()))
           | Some cl \<Rightarrow>
               (case var_fit_multiclass ext act cl (var_order' s) (var_delta' s) of
                  Inl e \<Rightarrow> (s, Inl e)
                | Inr (B, C) \<Rightarrow>
                    (let s1 = s\<lparr>var_model' := Some (PerClass B), var_cov' := Some (PerClass C)\<rparr>;
                         (con, r) = fitVAR_loop ext B C (nfft' s) (unique cl) []
                     in (s1\<lparr>connectivity' := Some (PerClass con)\<rparr>, r)))))"

subsection \<open>The connectivity of the whole data\<close>

text \<open>
  The loop of \<open>getConnectivity\<close> over \<open>np.unique(self.cl_)\<close>. With a dictionary in
  \<open>connectivity_\<close> and no class labels, \<open>np.unique(None)\<close> has the one element \<open>None\<close>,
  which is not the label of any class: the lookup raises KeyError.
\<close>

fun getConnectivity_loop ::
  "('v, 'l, 'k, 'g, 'p, 'r) ext \<Rightarrow> ('l \<times> 'k) list \<Rightarrow> string \<Rightarrow> 'l list \<Rightarrow> ('l \<times> 'r) list
     \<Rightarrow> error + ('l \<times> 'r) list" where
  "getConnectivity_loop ext con measure_name [] result = Inr result"
| "getConnectivity_loop ext con measure_name (c # cs) result =
     (case map_of con c of
        None \<Rightarrow> Inl KeyError
      | Some k \<Rightarrow>
          (case getattr_call ext k measure_name of
             Inl e \<Rightarrow> Inl e
           | Inr r \<Rightarrow> getConnectivity_loop ext con measure_name cs (AList.update c r result)))"

definition getConnectivity ::
  "('v, 'l::linorder, 'k, 'g, 'p, 'r) ext \<Rightarrow> ('v, 'l, 'k, 'g, 'p) SCoT \<Rightarrow> string
     \<Rightarrow> ('v, 'l, 'k, 'g, 'p) SCoT \<times> (error + ('l, 'r) fitted)" where
  "getConnectivity ext s measure_name =
     (case connectivity' s of
        None \<Rightarrow>
          (s, Inl (RuntimeError
                     ''Connectivity requires a VAR model (run doMVARICA or fitVAR first)''))
      | Some (PerClass con) \<Rightarrow>
          (case cl' s of
             None \<Rightarrow> (s, Inl KeyError)
           | Some cl \<Rightarrow>
               (case getConnectivity_loop ext con measure_name (unique cl) [] of
                  Inl e \<Rightarrow> (s, Inl e)
                | Inr result \<Rightarrow> (s, Inr (PerClass result))))
      | Some (Single k) \<Rightarrow>
          (case getattr_call ext k measure_name of
             Inl e \<Rightarrow> (s, Inl e)
           | Inr r \<Rightarrow> (s, Inr (Single r))))"

subsection \<open>The connectivity over sliding windows\<close>

text \<open>
  The array \<open>result\<close> of \<open>getTFConnectivity\<close>, of shape
  \<open>(tf_chans, tf_chans, length tf_slots, tf_nfft)\<close>: \<open>tf_slots ! i\<close> is \<open>result[:, :, i, :]\<close>.
\<close>

record 'r tfarray =
  tf_chans :: nat
  tf_nfft :: nat
  tf_slots :: "'r list"

text \<open>\<open>np.zeros((M, M, Nstep, nfft), np.complex64)\<close>: a negative dimension raises ValueError.\<close>

definition np_zeros ::
  "('v, 'l, 'k, 'g, 'p, 'r) ext \<Rightarrow> nat \<Rightarrow> int \<Rightarrow> int \<Rightarrow> error + 'r tfarray" where
  "np_zeros ext M Nstep nfft =
     (if Nstep < 0 \<or> nfft < 0 then Inl ValueError
      else Inr \<lparr>tf_chans = M, tf_nfft = nat nfft,
                tf_slots = replicate (nat Nstep) (zeros_c64 ext M (nat nfft))\<rparr>)"

text \<open>
  \<open>result[:, :, i, :] = r\<close> for a counter \<open>i\<close> that is never negative: IndexError when the
  array has no slot \<open>i\<close>, and otherwise the slot holds the converted value.
\<close>

definition set_slot ::
  "('v, 'l, 'k, 'g, 'p, 'r) ext \<Rightarrow> 'r tfarray \<Rightarrow> nat \<Rightarrow> 'r \<Rightarrow> error + 'r tfarray" where
  "set_slot ext result i r =
     (if i < length (tf_slots result)
      then (case as_c64 ext (tf_chans result) (tf_nfft result) r of
              Inl e \<Rightarrow> Inl e
            | Inr r' \<Rightarrow> Inr (result\<lparr>tf_slots := (tf_slots result)[i := r']\<rparr>))
      else Inl IndexError)"

text \<open>The loop over the window offsets when there are no class labels.\<close>

fun getTF_loop ::
  "('v, 'l, 'k, 'g, 'p, 'r) ext \<Rightarrow> ('v, 'l, 'k, 'g, 'p) SCoT \<Rightarrow> 'v array3 \<Rightarrow> string \<Rightarrow> int
     \<Rightarrow> int list \<Rightarrow> nat \<Rightarrow> 'r tfarray \<Rightarrow> error + 'r tfarray" where
  "getTF_loop ext s act measure_name winlen [] i result = Inr result"
| "getTF_loop ext s act measure_name winlen (n # ns) i result =
     (case take_rows act (arange_plus winlen n) of
        Inl e \<Rightarrow> Inl e
      | Inr data \<Rightarrow>
          (case var_fit ext data (var_order' s) (var_delta' s) of
             Inl e \<Rightarrow> Inl e
           | Inr (B, C) \<Rightarrow>
               (case getattr_call ext (Connectivity ext B C (nfft' s)) measure_name of
                  Inl e \<Rightarrow> Inl e
                | Inr r \<Rightarrow>
                    (case set_slot ext result i r of
                       Inl e \<Rightarrow> Inl e
                     | Inr result' \<Rightarrow>
                         getTF_loop ext s act measure_name winlen ns (i + 1) result'))))"

text \<open>With class labels: the arrays are made first, one for every distinct label.\<close>

fun getTF_init ::
  "('v, 'l, 'k, 'g, 'p, 'r) ext \<Rightarrow> nat \<Rightarrow> int \<Rightarrow> int \<Rightarrow> 'l list \<Rightarrow> ('l \<times> 'r tfarray) list
     \<Rightarrow> error + ('l \<times> 'r tfarray) list" where
  "getTF_init ext M Nstep nfft [] result = Inr result"
| "getTF_init ext M Nstep nfft (c # cs) result =
     (case np_zeros ext M Nstep nfft of
        Inl e \<Rightarrow> Inl e
      | Inr z \<Rightarrow> getTF_init ext M Nstep nfft cs (AList.update c z result))"

text \<open>The inner loop over the distinct labels, for the window with the counter \<open>i\<close>.\<close>

fun getTF_classes ::
  "('v, 'l, 'k, 'g, 'p, 'r) ext \<Rightarrow> ('v, 'l, 'k, 'g, 'p) SCoT \<Rightarrow> ('l \<times> 'v matrix) list
     \<Rightarrow> ('l \<times> 'v matrix) list \<Rightarrow> string \<Rightarrow> nat \<Rightarrow> 'l list \<Rightarrow> ('l \<times> 'r tfarray) list
     \<Rightarrow> error + ('l \<times> 'r tfarray) list" where
  "getTF_classes ext s B C measure_name i [] result = Inr result"
| "getTF_classes ext s B C measure_name i (c # cs) result =
     (case map_of B c of
        None \<Rightarrow> Inl KeyError
      | Some b \<Rightarrow>
          (case map_of C c of
             None \<Rightarrow> Inl KeyError
           | Some cv \<Rightarrow>
               (case getattr_call ext (Connectivity ext b cv (nfft' s)) measure_name of
                  Inl e \<Rightarrow> Inl e
                | Inr r \<Rightarrow>
                    (case map_of result c of
                       None \<Rightarrow> Inl KeyError
                     | Some arr \<Rightarrow>
                         (case set_slot ext arr i r of
                            Inl e \<Rightarrow> Inl e
                          | Inr arr' \<Rightarrow>
                              getTF_classes ext s B C measure_name i cs
                                (AList.update c arr' result))))))"

text \<open>The loop over the window offsets when there are class labels.\<close>

fun getTF_loop_classes ::
  "('v, 'l::linorder, 'k, 'g, 'p, 'r) ext \<Rightarrow> ('v, 'l, 'k, 'g, 'p) SCoT \<Rightarrow> 'v array3 \<Rightarrow> 'l list
     \<Rightarrow> string \<Rightarrow> int \<Rightarrow> int list \<Rightarrow> nat \<Rightarrow> ('l \<times> 'r tfarray) list
     \<Rightarrow> error + ('l \<times> 'r tfarray) list" where
  "getTF_loop_classes ext s act cl measure_name winlen [] i result = Inr result"
| "getTF_loop_classes ext s act cl measure_name winlen (n # ns) i result =
     (case take_rows act (arange_plus winlen n) of
        Inl e \<Rightarrow> Inl e
      | Inr data \<Rightarrow>
          (case var_fit_multiclass ext data cl (var_order' s) (var_delta' s) of
             Inl e \<Rightarrow> Inl e
           | Inr (B, C) \<Rightarrow>
               (case getTF_classes ext s B C measure_name i (unique cl) result of
                  Inl e \<Rightarrow> Inl e
                | Inr result' \<Rightarrow>
                    getTF_loop_classes ext s act cl measure_name winlen ns (i + 1) result')))"

text \<open>
  \<open>getTFConnectivity\<close>. The floor division \<open>(N-winlen)//winstep\<close> raises
  ZeroDivisionError for a step of zero, before anything else is computed.
\<close>

definition getTFConnectivity ::
  "('v, 'l::linorder, 'k, 'g, 'p, 'r) ext \<Rightarrow> ('v, 'l, 'k, 'g, 'p) SCoT \<Rightarrow> string \<Rightarrow> int \<Rightarrow> int
     \<Rightarrow> ('v, 'l, 'k, 'g, 'p) SCoT \<times> (error + ('l, 'r tfarray) fitted)" where
  "getTFConnectivity ext s measure_name winlen winstep =
     (case activations' s of
        None \<Rightarrow>
          (s, Inl (RuntimeError
             ''Time/Frequency Connectivity requires activations (call setData after doMVARICA)''))
      | Some act \<Rightarrow>
          (let (N, M, T) = shape3 act
           in if winstep = 0 then (s, Inl ZeroDivisionError)
              else
                (let Nstep = (int N - winlen) div winstep
                 in case cl' s of
                      None \<Rightarrow>
                        (case np_zeros ext M Nstep (nfft' s) of
                           Inl e \<Rightarrow> (s, Inl e)
                         | Inr result \<Rightarrow>
                             (case getTF_loop ext s act measure_name winlen
                                     (py_range (int N - winlen) winstep) 0 result of
                                Inl e \<Rightarrow> (s, Inl e)
                              | Inr result' \<Rightarrow> (s, Inr (Single result'))))
                    | Some cl \<Rightarrow>
                        (case getTF_init ext M Nstep (nfft' s) (unique cl) [] of
                           Inl e \<Rightarrow> (s, Inl e)
                         | Inr result \<Rightarrow>
                             (case getTF_loop_classes ext s act cl measure_name winlen
                                     (py_range (int N - winlen) winstep) 0 result of
                                Inl e \<Rightarrow> (s, Inl e)
                              | Inr result' \<Rightarrow> (s, Inr (PerClass result')))))))"

subsection \<open>The scalp maps\<close>

text \<open>
  \<open>self.mixing_.shape\<close> raises AttributeError when \<open>mixing_\<close> is \<open>None\<close>. Row \<open>i\<close> of the
  mixing matrix is \<open>mixing_[i,:]\<close>, column \<open>i\<close> of the unmixing matrix is \<open>unmixing_[:,i]\<close>.
\<close>

definition build_mixmaps ::
  "('v, 'l, 'k, 'g, 'p, 'r) ext \<Rightarrow> 'g \<Rightarrow> ('v, 'l, 'k, 'g, 'p) SCoT
     \<Rightarrow> ('v, 'l, 'k, 'g, 'p) SCoT \<times> (error + unit)" where
  "build_mixmaps ext topo s =
     (case mixing' s of
        None \<Rightarrow> (s, Inl AttributeError)
      | Some Mx \<Rightarrow>
          (s\<lparr>mixmaps' := mixmaps' s @
                map (\<lambda>i. get_map ext topo (rows Mx ! i)) [0..<length (rows Mx)]\<rparr>,
           Inr ()))"

definition build_unmixmaps ::
  "('v, 'l, 'k, 'g, 'p, 'r) ext \<Rightarrow> 'g \<Rightarrow> ('v, 'l, 'k, 'g, 'p) SCoT
     \<Rightarrow> ('v, 'l, 'k, 'g, 'p) SCoT \<times> (error + unit)" where
  "build_unmixmaps ext topo s =
     (case unmixing' s of
        None \<Rightarrow> (s, Inl AttributeError)
      | Some U \<Rightarrow>
          (s\<lparr>unmixmaps' := unmixmaps' s @
                map (\<lambda>i. get_map ext topo (map (\<lambda>r. r ! i) (rows U))) [0..<ncols U]\<rparr>,
           Inr ()))"

definition preparePlots ::
  "('v, 'l, 'k, 'g, 'p, 'r) ext \<Rightarrow> ('v, 'l, 'k, 'g, 'p) SCoT \<Rightarrow> bool \<Rightarrow> bool
     \<Rightarrow> ('v, 'l, 'k, 'g, 'p) SCoT \<times> (error + unit)" where
  "preparePlots ext s mixing unmixing =
     (case locations' s of
        None \<Rightarrow> (s, Inl (RuntimeError ''Need sensor locations for plotting''))
      | Some loc \<Rightarrow>
          (let s1 = (case topo' s of None \<Rightarrow> s\<lparr>topo' := Some loc\<rparr> | Some t \<Rightarrow> s);
               topo = (case topo' s of None \<Rightarrow> loc | Some t \<Rightarrow> t);
               (s2, r2) = (if mixing \<and> mixmaps' s1 = [] then build_mixmaps ext topo s1
                           else (s1, Inr ()))
           in case r2 of
                Inl e \<Rightarrow> (s2, Inl e)
              | Inr u \<Rightarrow>
                  (if unmixing \<and> unmixmaps' s2 = [] then build_unmixmaps ext topo s2
                   else (s2, Inr ()))))"

subsection \<open>The states of an object\<close>

text \<open>
  The states an object can be in: the one the constructor makes, and every state a method
  leaves behind, whether it returned or raised.
\<close>

inductive reachable ::
  "('v::semiring_0, 'l::linorder, 'k, 'g, 'p, 'r) ext \<Rightarrow> ('v, 'l, 'k, 'g, 'p) SCoT \<Rightarrow> bool"
  for ext :: "('v::semiring_0, 'l::linorder, 'k, 'g, 'p, 'r) ext" where
  r_init: "reachable ext (SCoT_init var_order var_delta locations reducedim nfft)"
| r_setData: "reachable ext s \<Longrightarrow> reachable ext (fst (setData s data cl))"
| r_doMVARICA: "reachable ext s \<Longrightarrow> reachable ext (fst (doMVARICA ext s))"
| r_fitVAR: "reachable ext s \<Longrightarrow> reachable ext (fst (fitVAR ext s))"
| r_getConnectivity: "reachable ext s \<Longrightarrow> reachable ext (fst (getConnectivity ext s measure_name))"
| r_getTFConnectivity:
    "reachable ext s \<Longrightarrow> reachable ext (fst (getTFConnectivity ext s measure_name winlen winstep))"
| r_preparePlots: "reachable ext s \<Longrightarrow> reachable ext (fst (preparePlots ext s mixing unmixing))"

subsection \<open>One window on its own, and the forms of a fitted model\<close>

text \<open>
  The path for one window on its own: an object that has the window for its activations
  (and the same class labels and configuration), \<open>fitVAR\<close> on it, then \<open>getConnectivity\<close>.
\<close>

definition single_shot ::
  "('v, 'l::linorder, 'k, 'g, 'p, 'r) ext \<Rightarrow> ('v, 'l, 'k, 'g, 'p) SCoT \<Rightarrow> 'v array3 \<Rightarrow> string
     \<Rightarrow> error + ('l, 'r) fitted" where
  "single_shot ext s win measure_name =
     (case fitVAR ext (s\<lparr>activations' := Some win\<rparr>) of
        (s1, Inl e) \<Rightarrow> Inl e
      | (s1, Inr u) \<Rightarrow> snd (getConnectivity ext s1 measure_name))"

fun is_single :: "('l, 'a) fitted option \<Rightarrow> bool" where
  "is_single (Some (Single x)) = True"
| "is_single other = False"

fun class_keys :: "('l, 'a) fitted option \<Rightarrow> 'l set option" where
  "class_keys (Some (PerClass d)) = Some (fst ` set d)"
| "class_keys other = None"

definition all_single :: "('v, 'l, 'k, 'g, 'p) SCoT \<Rightarrow> bool" where
  "all_single s =
     (is_single (var_model' s) \<and> is_single (var_cov' s) \<and> is_single (connectivity' s))"

definition all_class_mapped :: "('v, 'l, 'k, 'g, 'p) SCoT \<Rightarrow> 'l set \<Rightarrow> bool" where
  "all_class_mapped s K =
     (class_keys (var_model' s) = Some K \<and> class_keys (var_cov' s) = Some K \<and>
      class_keys (connectivity' s) = Some K)"

text \<open>
  Modelled from the spec: the keys of the two dictionaries that \<open>var.fit_multiclass\<close>
  returns (scot/var.py is not among the sources). The spec has the fitter fit "one AR
  Model/Noise Covariance per distinct label value, using only the trials bearing that
  label, producing a mapping".
\<close>

definition fit_multiclass_keys :: "('v, 'l, 'k, 'g, 'p, 'r) ext \<Rightarrow> bool" where
  "fit_multiclass_keys ext =
     (\<forall>x cl P delta B C. var_fit_multiclass ext x cl P delta = Inr (B, C) \<longrightarrow>
        fst ` set B = set cl \<and> fst ` set C = set cl)"

subsection \<open>Collaborators to compute with\<close>

text \<open>
  A small set of collaborators on integer data, used to run the methods on concrete
  inputs. The separator returns the identity scaled by the first entry of the data; the
  fit returns the first sample of what it is given and fails on data whose first entry is
  negative; a connectivity object is the triple of its arguments and has the two measures
  \<open>DTF\<close> and \<open>PDC\<close>. A measure returns a rational number. The conversion to single
  precision keeps 23 binary places, which is what single precision keeps of a number
  between 1 and 2, and leaves every integer below \<open>2 ^ 24\<close> as it is.
\<close>

definition first_entry :: "int array3 \<Rightarrow> int" where
  "first_entry x = (case samples x of ((v # _) # _) # _ \<Rightarrow> v | _ \<Rightarrow> 0)"

definition first_sample :: "int array3 \<Rightarrow> int list list" where
  "first_sample x = (case samples x of [] \<Rightarrow> [] | s # _ \<Rightarrow> s)"

definition demo_mvarica ::
  "int array3 \<Rightarrow> int \<Rightarrow> rat option \<Rightarrow> rat option \<Rightarrow> int option \<Rightarrow> error + int mvarica_result" where
  "demo_mvarica X P rv nc delta =
     (let W = \<lparr>ncols = chans X,
                rows = map (\<lambda>m. map (\<lambda>k. if m = k then first_entry X else 0) [0..<chans X])
                           [0..<chans X]\<rparr>
      in Inr \<lparr>result_mixing = W, result_unmixing = W, result_B = W, result_C = W,
               result_delta = delta\<rparr>)"

definition demo_fit ::
  "int array3 \<Rightarrow> int \<Rightarrow> int option \<Rightarrow> error + (int matrix \<times> int matrix)" where
  "demo_fit x P delta =
     (if first_entry x < 0 then Inl (ComputationError ''ill-conditioned'')
      else Inr (\<lparr>ncols = trials x, rows = first_sample x\<rparr>, \<lparr>ncols = 0, rows = []\<rparr>))"

definition demo_fit_multiclass ::
  "int array3 \<Rightarrow> nat list \<Rightarrow> int \<Rightarrow> int option
     \<Rightarrow> error + ((nat \<times> int matrix) list \<times> (nat \<times> int matrix) list)" where
  "demo_fit_multiclass x cl P delta =
     (if first_entry x < 0 then Inl (ComputationError ''ill-conditioned'')
      else Inr (map (\<lambda>c. (c, \<lparr>ncols = trials x,
                                rows = map (map (\<lambda>v. v * (int c + 1))) (first_sample x)\<rparr>))
                    (unique cl),
                map (\<lambda>c. (c, \<lparr>ncols = 0, rows = []\<rparr>)) (unique cl)))"

definition demo_getattr_call :: "int matrix \<times> int matrix \<times> int \<Rightarrow> string \<Rightarrow> error + rat" where
  "demo_getattr_call con name =
     (let b = (case rows (fst con) of (v # _) # _ \<Rightarrow> v | _ \<Rightarrow> 0)
      in if name = ''DTF'' then Inr (of_int b)
         else if name = ''PDC'' then Inr (1 + of_int b / 2 ^ 30)
         else Inl AttributeError)"

definition demo_as_c64 :: "nat \<Rightarrow> nat \<Rightarrow> rat \<Rightarrow> error + rat" where
  "demo_as_c64 M nfft r = Inr (of_int (round (r * 2 ^ 23)) / 2 ^ 23)"

definition demo_ext ::
  "(int, nat, int matrix \<times> int matrix \<times> int, nat, nat \<times> int list, rat) ext" where
  "demo_ext =
     \<lparr>mvarica = demo_mvarica, var_fit = demo_fit, var_fit_multiclass = demo_fit_multiclass,
      Connectivity = (\<lambda>B C nfft. (B, C, nfft)), getattr_call = demo_getattr_call,
      zeros_c64 = (\<lambda>M nfft. 0), as_c64 = demo_as_c64, get_map = (\<lambda>loc v. (loc, v))\<rparr>"

text \<open>
  Five samples of one channel in two trials. \<open>demo_s3\<close> is the state after \<open>setData\<close>,
  \<open>doMVARICA\<close> and \<open>setData\<close> again; \<open>demo_s3c\<close> is the same with a class label for each
  trial.
\<close>

definition demo_data :: "int ndarray" where
  "demo_data =
     A3 \<lparr>chans = 1, trials = 2, samples = [[[1, 2]], [[3, 4]], [[5, 6]], [[7, 8]], [[9, 10]]]\<rparr>"

definition demo_s0 :: "(int, nat, int matrix \<times> int matrix \<times> int, nat, nat \<times> int list) SCoT" where
  "demo_s0 = SCoT_init 2 None (Some 7) (99 / 100) 1"

definition demo_s1 :: "(int, nat, int matrix \<times> int matrix \<times> int, nat, nat \<times> int list) SCoT" where
  "demo_s1 = fst (setData demo_s0 demo_data None)"

definition demo_s2 :: "(int, nat, int matrix \<times> int matrix \<times> int, nat, nat \<times> int list) SCoT" where
  "demo_s2 = fst (doMVARICA demo_ext demo_s1)"

definition demo_s3 :: "(int, nat, int matrix \<times> int matrix \<times> int, nat, nat \<times> int list) SCoT" where
  "demo_s3 = fst (setData demo_s2 demo_data None)"

definition demo_s3c :: "(int, nat, int matrix \<times> int matrix \<times> int, nat, nat \<times> int list) SCoT" where
  "demo_s3c = fst (setData demo_s2 demo_data (Some [1, 0]))"

subsection \<open>What one window computes\<close>

text \<open>
  The body of the window loop up to the assignment, for the window at offset \<open>n\<close> when
  there are no class labels: the slice, the fit, the connectivity object and the measure.
  \<open>windows_ok\<close> says that this and the conversion of the result go through for every
  offset of a list.
\<close>

definition window_measure ::
  "('v, 'l, 'k, 'g, 'p, 'r) ext \<Rightarrow> ('v, 'l, 'k, 'g, 'p) SCoT \<Rightarrow> 'v array3 \<Rightarrow> string \<Rightarrow> int \<Rightarrow> int
     \<Rightarrow> error + 'r" where
  "window_measure ext s act measure_name winlen n =
     (case take_rows act (arange_plus winlen n) of
        Inl e \<Rightarrow> Inl e
      | Inr data \<Rightarrow>
          (case var_fit ext data (var_order' s) (var_delta' s) of
             Inl e \<Rightarrow> Inl e
           | Inr (B, C) \<Rightarrow> getattr_call ext (Connectivity ext B C (nfft' s)) measure_name))"

definition windows_ok ::
  "('v, 'l, 'k, 'g, 'p, 'r) ext \<Rightarrow> ('v, 'l, 'k, 'g, 'p) SCoT \<Rightarrow> 'v array3 \<Rightarrow> string \<Rightarrow> int
     \<Rightarrow> int list \<Rightarrow> bool" where
  "windows_ok ext s act measure_name winlen ns =
     list_all (\<lambda>n. case window_measure ext s act measure_name winlen n of
                     Inl e \<Rightarrow> False
                   | Inr r \<Rightarrow>
                       (case as_c64 ext (chans act) (nat (nfft' s)) r of
                          Inl e \<Rightarrow> False
                        | Inr r' \<Rightarrow> True)) ns"

text \<open>
  Data whose third sample makes the fit fail, and the object \<open>demo_s4\<close> that has them for
  its activations.
\<close>

definition bad_data :: "int ndarray" where
  "bad_data =
     A3 \<lparr>chans = 1, trials = 2, samples = [[[1, 2]], [[3, 4]], [[-5, 6]], [[7, 8]], [[9, 10]]]\<rparr>"

definition demo_s4 :: "(int, nat, int matrix \<times> int matrix \<times> int, nat, nat \<times> int list) SCoT" where
  "demo_s4 = fst (setData demo_s2 bad_data None)"

text \<open>
  Further objects: \<open>demo_s1c\<close> was given data with class labels; \<open>demo_s5\<close>, \<open>demo_s5c\<close> and
  \<open>demo_s5e\<close> are fitted with no class labels, with the labels of \<open>demo_s3c\<close> and with an
  empty list of labels; \<open>demo_p1\<close> has prepared its plots, and \<open>demo_p2\<close> has then been
  given other data and decomposed again; \<open>demo_n0\<close> is a new object with no sensor
  locations.
\<close>

definition demo_s1c :: "(int, nat, int matrix \<times> int matrix \<times> int, nat, nat \<times> int list) SCoT" where
  "demo_s1c = fst (setData demo_s0 demo_data (Some [1, 0]))"








section \<open>Properties\<close>

subsection \<open>What a method leaves alone\<close>

lemma fst_getConnectivity: "fst (getConnectivity ext s measure_name) = s"
  by (simp add: getConnectivity_def split: option.splits fitted.splits sum.splits)

lemma fst_getTFConnectivity: "fst (getTFConnectivity ext s measure_name winlen winstep) = s"
  by (simp add: getTFConnectivity_def Let_def split: option.splits sum.splits prod.splits)

lemma doMVARICA_activations: "activations' (fst (doMVARICA ext s)) = activations' s"
  by (simp add: doMVARICA_def Let_def split: option.splits sum.splits prod.splits)

lemma fitVAR_frame:
  "activations' (fst (fitVAR ext s)) = activations' s \<and>
   unmixing' (fst (fitVAR ext s)) = unmixing' s"
  by (simp add: fitVAR_def Let_def split: option.splits sum.splits prod.splits)

lemma preparePlots_frame:
  "activations' (fst (preparePlots ext s mixing unmixing)) = activations' s \<and>
   unmixing' (fst (preparePlots ext s mixing unmixing)) = unmixing' s"
  by (simp add: preparePlots_def build_mixmaps_def build_unmixmaps_def Let_def
      split: option.splits sum.splits prod.splits if_splits)

text \<open>Activations are only ever computed through an unmixing matrix.\<close>

lemma reachable_activations:
  "reachable ext s \<Longrightarrow> activations' s \<noteq> None \<Longrightarrow> unmixing' s \<noteq> None"
proof (induction rule: reachable.induct)
  case (r_init var_order var_delta locations reducedim nfft)
  then show ?case by (simp add: SCoT_init_def)
next
  case (r_setData s data cl)
  then show ?case by (auto simp add: setData_def Let_def split: option.splits sum.splits)
next
  case (r_doMVARICA s)
  then show ?case
    by (auto simp add: doMVARICA_def Let_def split: option.splits sum.splits prod.splits if_splits)
next
  case (r_fitVAR s)
  then show ?case by (simp add: fitVAR_frame)
next
  case (r_getConnectivity s measure_name)
  then show ?case by (simp add: fst_getConnectivity)
next
  case (r_getTFConnectivity s measure_name winlen winstep)
  then show ?case by (simp add: fst_getTFConnectivity)
next
  case (r_preparePlots s mixing unmixing)
  then show ?case by (simp add: preparePlots_frame)
qed

subsection \<open>Setting data\<close>

text \<open>
  Claim C3. Whatever the state of the object was, after \<open>setData\<close> the VAR model, the noise
  covariance and the connectivity model are all \<open>None\<close>. This holds for the state the call
  leaves behind also when the projection of the new data raises.
\<close>

theorem setData_clears_models:
  "var_model' (fst (setData s data cl)) = None \<and>
   var_cov' (fst (setData s data cl)) = None \<and>
   connectivity' (fst (setData s data cl)) = None"
  by (simp add: setData_def Let_def split: option.splits sum.splits)

lemma dot_special_shape:
  "dot_special x U = Inr a \<Longrightarrow> shape3 a = (length (samples x), ncols U, trials x)"
  by (auto simp add: dot_special_def shape3_def split: if_splits)

lemma dot_special_entry:
  assumes "dot_special x U = Inr a" "n < length (samples x)" "k < ncols U" "t < trials x"
  shows "samples a ! n ! k ! t = (\<Sum>m \<leftarrow> [0..<chans x]. samples x ! n ! m ! t * rows U ! m ! k)"
  using assms by (auto simp add: dot_special_def split: if_splits)

text \<open>
  Claim C4. In every state an object can reach, \<open>setData\<close> with an unmixing matrix \<open>U\<close>
  whose row count is the channel count of the new data returns and leaves the activations
  equal to the projection of the data (made three dimensional) through \<open>U\<close>: an array of
  the shape (samples of the data, columns of \<open>U\<close>, trials of the data) whose entry
  \<open>[n, k, t]\<close> is the sum over the channels \<open>m\<close> of \<open>data[n, m, t] * U[m, k]\<close>. With no
  unmixing matrix the activations are \<open>None\<close> after the call.
\<close>

theorem setData_activations:
  assumes "reachable ext s"
  shows "(unmixing' s = None \<longrightarrow> activations' (fst (setData s data cl)) = None) \<and>
         (\<forall>U. unmixing' s = Some U \<and> chans (atleast_3d data) = length (rows U) \<longrightarrow>
            snd (setData s data cl) = Inr () \<and>
            (\<exists>a. dot_special (atleast_3d data) U = Inr a \<and>
                 activations' (fst (setData s data cl)) = Some a \<and>
                 shape3 a = (length (samples (atleast_3d data)), ncols U, trials (atleast_3d data)) \<and>
                 (\<forall>n < length (samples (atleast_3d data)). \<forall>k < ncols U. \<forall>t < trials (atleast_3d data).
                    samples a ! n ! k ! t =
                      (\<Sum>m \<leftarrow> [0..<chans (atleast_3d data)].
                          samples (atleast_3d data) ! n ! m ! t * rows U ! m ! k))))"
proof (intro conjI allI impI)
  assume "unmixing' s = None"
  moreover from this assms have "activations' s = None"
    using reachable_activations by blast
  ultimately show "activations' (fst (setData s data cl)) = None"
    by (simp add: setData_def Let_def)
next
  fix U
  assume U: "unmixing' s = Some U \<and> chans (atleast_3d data) = length (rows U)"
  then obtain a where a: "dot_special (atleast_3d data) U = Inr a"
    by (auto simp add: dot_special_def)
  from U a show "snd (setData s data cl) = Inr ()"
    by (simp add: setData_def Let_def)
  from U a have act: "activations' (fst (setData s data cl)) = Some a"
    by (simp add: setData_def Let_def)
  show "\<exists>a. dot_special (atleast_3d data) U = Inr a \<and>
           activations' (fst (setData s data cl)) = Some a \<and>
           shape3 a = (length (samples (atleast_3d data)), ncols U, trials (atleast_3d data)) \<and>
           (\<forall>n < length (samples (atleast_3d data)). \<forall>k < ncols U. \<forall>t < trials (atleast_3d data).
              samples a ! n ! k ! t =
                (\<Sum>m \<leftarrow> [0..<chans (atleast_3d data)].
                    samples (atleast_3d data) ! n ! m ! t * rows U ! m ! k))"
    using a act dot_special_shape [OF a] dot_special_entry [OF a] by blast
qed

text \<open>
  The theorem at the concrete object: before any decomposition there is no unmixing matrix
  and no activations after \<open>setData\<close>; after the decomposition the unmixing matrix is the
  identity and the activations are the data.
\<close>

theorem setData_activations_witness:
  "reachable demo_ext demo_s2 \<and> reachable demo_ext demo_s0 \<and>
   unmixing' demo_s0 = None \<and> activations' (fst (setData demo_s0 demo_data None)) = None \<and>
   unmixing' demo_s2 = Some \<lparr>ncols = 1, rows = [[1]]\<rparr> \<and>
   activations' (fst (setData demo_s2 demo_data None)) =
     Some \<lparr>chans = 1, trials = 2, samples = [[[1, 2]], [[3, 4]], [[5, 6]], [[7, 8]], [[9, 10]]]\<rparr>"
proof -
  have r2: "reachable demo_ext demo_s2"
    unfolding demo_s2_def demo_s1_def demo_s0_def by (intro reachable.intros)
  have r0: "reachable demo_ext demo_s0"
    unfolding demo_s0_def by (intro reachable.intros)
  have u0: "unmixing' demo_s0 = None"
    by (simp add: demo_s0_def SCoT_init_def)
  have u2: "unmixing' demo_s2 = Some \<lparr>ncols = 1, rows = [[1]]\<rparr>"
    by code_simp
  have d: "dot_special (atleast_3d demo_data) \<lparr>ncols = 1, rows = [[1]]\<rparr> =
     Inr \<lparr>chans = 1, trials = 2, samples = [[[1, 2]], [[3, 4]], [[5, 6]], [[7, 8]], [[9, 10]]]\<rparr>"
    by code_simp
  have c: "chans (atleast_3d demo_data) = length (rows \<lparr>ncols = 1, rows = [[1::int]]\<rparr>)"
    by (simp add: demo_data_def)
  from setData_activations [OF r0, of demo_data None] u0
  have a0: "activations' (fst (setData demo_s0 demo_data None)) = None" by blast
  from setData_activations [OF r2, of demo_data None] u2 c d
  have a2: "activations' (fst (setData demo_s2 demo_data None)) =
     Some \<lparr>chans = 1, trials = 2, samples = [[[1, 2]], [[3, 4]], [[5, 6]], [[7, 8]], [[9, 10]]]\<rparr>"
    by auto
  from r2 r0 u0 a0 u2 a2 show ?thesis by blast
qed

subsection \<open>Calls out of order\<close>

lemma fitVAR_no_activations:
  "activations' s = None \<Longrightarrow>
     fitVAR ext s =
       (s, Inl (RuntimeError ''VAR fitting requires activations (call setData after doMVARICA)''))"
  by (simp add: fitVAR_def)

lemma getTFConnectivity_no_activations:
  "activations' s = None \<Longrightarrow>
     getTFConnectivity ext s measure_name winlen winstep =
       (s, Inl (RuntimeError
          ''Time/Frequency Connectivity requires activations (call setData after doMVARICA)''))"
  by (simp add: getTFConnectivity_def)

lemma getConnectivity_no_model:
  "connectivity' s = None \<Longrightarrow>
     getConnectivity ext s measure_name =
       (s, Inl (RuntimeError ''Connectivity requires a VAR model (run doMVARICA or fitVAR first)''))"
  by (simp add: getConnectivity_def)

lemma setData_init_activations:
  "activations' (fst (setData (SCoT_init var_order var_delta locations reducedim nfft) data cl)) = None"
  by (simp add: setData_def SCoT_init_def Let_def)

lemma setData_connectivity: "connectivity' (fst (setData s data cl)) = None"
  by (simp add: setData_def Let_def split: option.splits sum.splits)

text \<open>
  Claim C6. \<open>fitVAR\<close> on an object with no activations raises the RuntimeError of its first
  line and leaves the object as it was: so on a new object, on an object that was only
  given data, and on every reachable object with no unmixing matrix. \<open>getConnectivity\<close> on
  an object with no connectivity model raises the RuntimeError of its first line and
  leaves the object as it was: so on a new object and after every \<open>setData\<close>. The results
  do not depend on the collaborators: none of them is called.
\<close>

theorem precondition_errors:
  fixes s :: "('v::semiring_0, 'l::linorder, 'k, 'g, 'p) SCoT"
    and ext :: "('v, 'l, 'k, 'g, 'p, 'r) ext"
    and ext0 :: "('v, 'l, 'k, 'g, 'p, 'r0) ext"
    and var_order nfft :: int and var_delta :: "'v option" and locations :: "'g option"
    and reducedim :: rat
  defines "s0 \<equiv> SCoT_init var_order var_delta locations reducedim nfft"
  defines "no_activations \<equiv>
    Inl (RuntimeError ''VAR fitting requires activations (call setData after doMVARICA)'')"
  defines "no_model \<equiv>
    Inl (RuntimeError ''Connectivity requires a VAR model (run doMVARICA or fitVAR first)'')"
  shows "(activations' s = None \<longrightarrow> fitVAR ext s = (s, no_activations)) \<and>
         (reachable ext0 s \<and> unmixing' s = None \<longrightarrow> fitVAR ext s = (s, no_activations)) \<and>
         (connectivity' s = None \<longrightarrow> getConnectivity ext s measure_name = (s, no_model)) \<and>
         fitVAR ext s0 = (s0, no_activations) \<and>
         fitVAR ext (fst (setData s0 data cl)) = (fst (setData s0 data cl), no_activations) \<and>
         getConnectivity ext s0 measure_name = (s0, no_model) \<and>
         getConnectivity ext (fst (setData s data cl)) measure_name =
           (fst (setData s data cl), no_model)"
proof -
  have 1: "activations' s = None \<longrightarrow> fitVAR ext s = (s, no_activations)"
    by (simp add: fitVAR_no_activations no_activations_def)
  have 2: "reachable ext0 s \<and> unmixing' s = None \<longrightarrow> fitVAR ext s = (s, no_activations)"
    using 1 reachable_activations by blast
  have 3: "connectivity' s = None \<longrightarrow> getConnectivity ext s measure_name = (s, no_model)"
    by (simp add: getConnectivity_no_model no_model_def)
  have 4: "fitVAR ext s0 = (s0, no_activations)"
    by (simp add: fitVAR_no_activations no_activations_def s0_def SCoT_init_def)
  have 5: "fitVAR ext (fst (setData s0 data cl)) = (fst (setData s0 data cl), no_activations)"
    unfolding s0_def no_activations_def
    by (rule fitVAR_no_activations) (rule setData_init_activations)
  have 6: "getConnectivity ext s0 measure_name = (s0, no_model)"
    by (simp add: getConnectivity_no_model no_model_def s0_def SCoT_init_def)
  have 7: "getConnectivity ext (fst (setData s data cl)) measure_name =
           (fst (setData s data cl), no_model)"
    unfolding no_model_def
    by (rule getConnectivity_no_model) (rule setData_connectivity)
  from 1 2 3 4 5 6 7 show ?thesis by blast
qed

text \<open>The theorem at the concrete object that was only given data.\<close>

theorem precondition_errors_witness:
  "activations' demo_s1 = None \<and> connectivity' demo_s1 = None \<and>
   reachable demo_ext demo_s1 \<and> unmixing' demo_s1 = None \<and>
   fitVAR demo_ext demo_s1 =
     (demo_s1, Inl (RuntimeError ''VAR fitting requires activations (call setData after doMVARICA)'')) \<and>
   getConnectivity demo_ext demo_s1 ''DTF'' =
     (demo_s1, Inl (RuntimeError ''Connectivity requires a VAR model (run doMVARICA or fitVAR first)''))"
proof -
  have a: "activations' demo_s1 = None" by code_simp
  have c: "connectivity' demo_s1 = None" by code_simp
  have u: "unmixing' demo_s1 = None" by code_simp
  have r: "reachable demo_ext demo_s1"
    unfolding demo_s1_def demo_s0_def by (intro reachable.intros)
  from precondition_errors [of demo_s1 demo_ext demo_ext "''DTF''"] a c r u
  show ?thesis by blast
qed

subsection \<open>Decomposition without activations\<close>

text \<open>
  Claim C7. \<open>doMVARICA\<close> never assigns the activations. On a new object, after a first
  \<open>setData\<close> and a \<open>doMVARICA\<close> that returned, the activations are still \<open>None\<close> while the
  unmixing matrix, the VAR model and the connectivity model are set; \<open>fitVAR\<close> and
  \<open>getTFConnectivity\<close> raise the RuntimeError that asks for activations and change
  nothing; and a further \<open>setData\<close> stores the projection of its data through the unmixing
  matrix of the decomposition.
\<close>

theorem doMVARICA_leaves_activations:
  fixes s0 :: "('v::semiring_0, 'l::linorder, 'k, 'g, 'p) SCoT"
  assumes s0: "s0 = SCoT_init var_order var_delta locations reducedim nfft"
    and s1: "s1 = fst (setData s0 data cl)"
    and ok: "doMVARICA ext s1 = (s2, Inr ())"
  shows "activations' (fst (doMVARICA ext s)) = activations' s \<and>
         activations' s2 = None \<and>
         unmixing' s2 \<noteq> None \<and> var_model' s2 \<noteq> None \<and> connectivity' s2 \<noteq> None \<and>
         fitVAR ext s2 =
           (s2, Inl (RuntimeError
                       ''VAR fitting requires activations (call setData after doMVARICA)'')) \<and>
         getTFConnectivity ext s2 measure_name winlen winstep =
           (s2, Inl (RuntimeError
              ''Time/Frequency Connectivity requires activations (call setData after doMVARICA)'')) \<and>
         (\<exists>U. unmixing' s2 = Some U \<and>
              (\<forall>a. dot_special (atleast_3d data2) U = Inr a \<longrightarrow>
                   setData s2 data2 cl2 =
                     (s2\<lparr>data' := Some (atleast_3d data2), cl' := cl2, var_model' := None,
                         var_cov' := None, connectivity' := None, activations' := Some a\<rparr>,
                      Inr ())))"
proof -
  have a1: "activations' s1 = None"
    unfolding s1 s0 by (rule setData_init_activations)
  have "activations' (fst (doMVARICA ext s1)) = activations' s1"
    by (rule doMVARICA_activations)
  with ok a1 have a2: "activations' s2 = None" by simp
  from ok have set: "unmixing' s2 \<noteq> None \<and> var_model' s2 \<noteq> None \<and> connectivity' s2 \<noteq> None"
    by (auto simp add: doMVARICA_def Let_def split: option.splits sum.splits prod.splits if_splits)
  then obtain U where U: "unmixing' s2 = Some U" by blast
  have "\<forall>a. dot_special (atleast_3d data2) U = Inr a \<longrightarrow>
           setData s2 data2 cl2 =
             (s2\<lparr>data' := Some (atleast_3d data2), cl' := cl2, var_model' := None,
                 var_cov' := None, connectivity' := None, activations' := Some a\<rparr>,
              Inr ())"
    using U by (simp add: setData_def Let_def)
  with U have re: "\<exists>U. unmixing' s2 = Some U \<and>
              (\<forall>a. dot_special (atleast_3d data2) U = Inr a \<longrightarrow>
                   setData s2 data2 cl2 =
                     (s2\<lparr>data' := Some (atleast_3d data2), cl' := cl2, var_model' := None,
                         var_cov' := None, connectivity' := None, activations' := Some a\<rparr>,
                      Inr ()))" by blast
  from a2 set re show ?thesis
    by (simp add: doMVARICA_activations fitVAR_no_activations getTFConnectivity_no_activations)
qed

text \<open>The theorem at the concrete object.\<close>

theorem doMVARICA_leaves_activations_witness:
  "doMVARICA demo_ext demo_s1 = (demo_s2, Inr ()) \<and>
   activations' demo_s2 = None \<and>
   unmixing' demo_s2 = Some \<lparr>ncols = 1, rows = [[1]]\<rparr> \<and>
   fitVAR demo_ext demo_s2 =
     (demo_s2, Inl (RuntimeError
                 ''VAR fitting requires activations (call setData after doMVARICA)'')) \<and>
   getTFConnectivity demo_ext demo_s2 ''DTF'' 2 1 =
     (demo_s2, Inl (RuntimeError
        ''Time/Frequency Connectivity requires activations (call setData after doMVARICA)'')) \<and>
   activations' (fst (setData demo_s2 demo_data None)) =
     Some \<lparr>chans = 1, trials = 2, samples = [[[1, 2]], [[3, 4]], [[5, 6]], [[7, 8]], [[9, 10]]]\<rparr>"
proof -
  have ok: "doMVARICA demo_ext demo_s1 = (demo_s2, Inr ())"
    by code_simp
  have u2: "unmixing' demo_s2 = Some \<lparr>ncols = 1, rows = [[1]]\<rparr>"
    by code_simp
  have d: "dot_special (atleast_3d demo_data) \<lparr>ncols = 1, rows = [[1]]\<rparr> =
     Inr \<lparr>chans = 1, trials = 2, samples = [[[1, 2]], [[3, 4]], [[5, 6]], [[7, 8]], [[9, 10]]]\<rparr>"
    by code_simp
  from doMVARICA_leaves_activations [OF demo_s0_def demo_s1_def ok, of demo_s0 "''DTF''" 2 1 demo_data None]
    ok u2 d
  show ?thesis by auto
qed

subsection \<open>The window offsets\<close>

lemma length_py_range:
  "0 < step \<Longrightarrow> length (py_range stop step) = nat ((stop + step - 1) div step)"
  by (simp add: py_range_def)

lemma nth_py_range:
  "i < length (py_range stop step) \<Longrightarrow> py_range stop step ! i = int i * step"
  by (simp add: py_range_def split: if_splits)

lemma py_range_bounds:
  assumes "0 < step" "n \<in> set (py_range stop step)"
  shows "0 \<le> n \<and> n < stop"
proof -
  from assms obtain k where k: "n = int k * step" "int k < (stop + step - 1) div step"
    by (auto simp add: py_range_def)
  from k(2) have "int k + 1 \<le> (stop + step - 1) div step" by simp
  then have "(int k + 1) * step \<le> ((stop + step - 1) div step) * step"
    using assms(1) by (simp add: mult_right_mono)
  also have "\<dots> \<le> stop + step - 1"
    using assms(1) by (metis div_mult_mod_eq add.commute le_add_same_cancel2 pos_mod_sign)
  finally have "int k * step < stop" by (simp add: algebra_simps)
  with k(1) assms(1) show ?thesis by simp
qed

lemma py_range_count_dvd:
  assumes "0 < step" "0 \<le> stop" "step dvd stop"
  shows "length (py_range stop step) = nat (stop div step)"
proof -
  from assms obtain q where q: "stop = step * q" by (auto simp: dvd_def)
  have "(step * q + step - 1) div step = q"
  proof -
    have "step * q + step - 1 = (step - 1) + q * step" by (simp add: algebra_simps)
    then have "(step * q + step - 1) div step = (step - 1) div step + q"
      using assms(1) by (metis div_mult_self1 less_numeral_extra(3) add.commute)
    then show ?thesis using assms(1) by simp
  qed
  with q assms(1) show ?thesis by (simp add: length_py_range)
qed

lemma py_range_count_not_dvd:
  assumes "0 < step" "0 < stop" "\<not> step dvd stop"
  shows "length (py_range stop step) = nat (stop div step) + 1"
proof -
  define r where "r = stop mod step"
  define q where "q = stop div step"
  have st: "stop = q * step + r" by (simp add: q_def r_def)
  have "0 \<le> r" using assms(1) by (simp add: r_def)
  moreover have "r \<noteq> 0" using assms(3) by (simp add: r_def dvd_eq_mod_eq_0)
  moreover have "r < step" using assms(1) by (simp add: r_def)
  ultimately have r: "0 < r" "r < step" by simp_all
  have q0: "0 \<le> q" using assms by (simp add: q_def pos_imp_zdiv_nonneg_iff)
  have "(stop + step - 1) div step = q + 1"
  proof -
    have "stop + step - 1 = (r - 1) + (q + 1) * step" by (simp add: st algebra_simps)
    then have "(stop + step - 1) div step = (r - 1) div step + (q + 1)"
      using assms(1) by (metis div_mult_self1 less_numeral_extra(3) add.commute)
    moreover have "(r - 1) div step = 0" using r by simp
    ultimately show ?thesis by simp
  qed
  with q0 show ?thesis using assms(1) by (simp add: length_py_range q_def nat_add_distrib)
qed

subsection \<open>The loops over the windows\<close>

lemma set_slot_Inr:
  "set_slot ext res i r = Inr res' \<Longrightarrow>
     i < length (tf_slots res) \<and>
     (\<exists>r'. as_c64 ext (tf_chans res) (tf_nfft res) r = Inr r' \<and>
           res' = res\<lparr>tf_slots := (tf_slots res)[i := r']\<rparr>)"
  by (auto simp add: set_slot_def split: if_splits sum.splits)

lemma getTF_loop_Inr:
  "getTF_loop ext s act m wl ns i res = Inr res' \<Longrightarrow>
     tf_chans res' = tf_chans res \<and> tf_nfft res' = tf_nfft res \<and>
     length (tf_slots res') = length (tf_slots res) \<and>
     (ns \<noteq> [] \<longrightarrow> i + length ns \<le> length (tf_slots res)) \<and>
     (\<forall>j. j < i \<or> i + length ns \<le> j \<longrightarrow> tf_slots res' ! j = tf_slots res ! j) \<and>
     (\<forall>j < length ns.
        \<exists>win B C r.
          take_rows act (arange_plus wl (ns ! j)) = Inr win \<and>
          var_fit ext win (var_order' s) (var_delta' s) = Inr (B, C) \<and>
          getattr_call ext (Connectivity ext B C (nfft' s)) m = Inr r \<and>
          as_c64 ext (tf_chans res) (tf_nfft res) r = Inr (tf_slots res' ! (i + j)))"
proof (induction ns arbitrary: i res)
  case Nil
  then show ?case by simp
next
  case (Cons n ns)
  from Cons.prems obtain win B C r res1 where
    w: "take_rows act (arange_plus wl n) = Inr win" and
    f: "var_fit ext win (var_order' s) (var_delta' s) = Inr (B, C)" and
    g: "getattr_call ext (Connectivity ext B C (nfft' s)) m = Inr r" and
    st: "set_slot ext res i r = Inr res1" and
    rest: "getTF_loop ext s act m wl ns (i + 1) res1 = Inr res'"
    by (auto split: sum.splits prod.splits)
  from set_slot_Inr [OF st] obtain r' where
    i: "i < length (tf_slots res)" and
    c: "as_c64 ext (tf_chans res) (tf_nfft res) r = Inr r'" and
    res1: "res1 = res\<lparr>tf_slots := (tf_slots res)[i := r']\<rparr>"
    by blast
  note IH = Cons.IH [OF rest]
  have same: "tf_chans res1 = tf_chans res" "tf_nfft res1 = tf_nfft res"
    "length (tf_slots res1) = length (tf_slots res)"
    by (simp_all add: res1)
  have keep_i: "tf_slots res' ! i = r'"
  proof -
    from IH have "tf_slots res' ! i = tf_slots res1 ! i" by simp
    then show ?thesis using i by (simp add: res1)
  qed
  have 1: "tf_chans res' = tf_chans res \<and> tf_nfft res' = tf_nfft res \<and>
     length (tf_slots res') = length (tf_slots res)"
    using IH same by simp
  have 2: "i + length (n # ns) \<le> length (tf_slots res)"
  proof (cases ns)
    case Nil
    then show ?thesis using i by simp
  next
    case (Cons a list)
    then show ?thesis using IH same by simp
  qed
  have 3: "\<forall>j. j < i \<or> i + length (n # ns) \<le> j \<longrightarrow> tf_slots res' ! j = tf_slots res ! j"
  proof (intro allI impI)
    fix j assume j: "j < i \<or> i + length (n # ns) \<le> j"
    then have "j < i + 1 \<or> i + 1 + length ns \<le> j" by auto
    with IH have "tf_slots res' ! j = tf_slots res1 ! j" by blast
    moreover from j have "j \<noteq> i" by auto
    ultimately show "tf_slots res' ! j = tf_slots res ! j" by (simp add: res1)
  qed
  have 4: "\<forall>j < length (n # ns).
        \<exists>win B C r.
          take_rows act (arange_plus wl ((n # ns) ! j)) = Inr win \<and>
          var_fit ext win (var_order' s) (var_delta' s) = Inr (B, C) \<and>
          getattr_call ext (Connectivity ext B C (nfft' s)) m = Inr r \<and>
          as_c64 ext (tf_chans res) (tf_nfft res) r = Inr (tf_slots res' ! (i + j))"
  proof (intro allI impI)
    fix j assume j: "j < length (n # ns)"
    show "\<exists>win B C r.
          take_rows act (arange_plus wl ((n # ns) ! j)) = Inr win \<and>
          var_fit ext win (var_order' s) (var_delta' s) = Inr (B, C) \<and>
          getattr_call ext (Connectivity ext B C (nfft' s)) m = Inr r \<and>
          as_c64 ext (tf_chans res) (tf_nfft res) r = Inr (tf_slots res' ! (i + j))"
    proof (cases j)
      case 0
      then show ?thesis using w f g c keep_i by auto
    next
      case (Suc j')
      with j have "j' < length ns" by simp
      with IH obtain win' B' C' r'' where
        "take_rows act (arange_plus wl (ns ! j')) = Inr win'"
        "var_fit ext win' (var_order' s) (var_delta' s) = Inr (B', C')"
        "getattr_call ext (Connectivity ext B' C' (nfft' s)) m = Inr r''"
        "as_c64 ext (tf_chans res1) (tf_nfft res1) r'' = Inr (tf_slots res' ! (i + 1 + j'))"
        by blast
      then show ?thesis using Suc same by auto
    qed
  qed
  from 1 2 3 4 show ?case by blast
qed

text \<open>Splitting the loop at any point.\<close>

lemma getTF_loop_append:
  "getTF_loop ext s act m wl (pre @ post) i res =
     (case getTF_loop ext s act m wl pre i res of
        Inl e \<Rightarrow> Inl e
      | Inr res1 \<Rightarrow> getTF_loop ext s act m wl post (i + length pre) res1)"
  by (induction pre arbitrary: i res) (auto split: sum.splits prod.splits)

lemma getTF_loop_fit_fails:
  assumes "n \<in> set ns" "take_rows act (arange_plus wl n) = Inr win"
    "var_fit ext win (var_order' s) (var_delta' s) = Inl e"
  shows "\<exists>e'. getTF_loop ext s act m wl ns i res = Inl e'"
  using assms by (induction ns arbitrary: i res) (auto split: sum.splits prod.splits)

lemma getTF_loop_succeeds:
  assumes "i + length ns \<le> length (tf_slots res)"
    and "\<forall>n \<in> set ns. \<exists>win B C r r'.
          take_rows act (arange_plus wl n) = Inr win \<and>
          var_fit ext win (var_order' s) (var_delta' s) = Inr (B, C) \<and>
          getattr_call ext (Connectivity ext B C (nfft' s)) m = Inr r \<and>
          as_c64 ext (tf_chans res) (tf_nfft res) r = Inr r'"
  shows "\<exists>res'. getTF_loop ext s act m wl ns i res = Inr res'"
  using assms
proof (induction ns arbitrary: i res)
  case Nil
  then show ?case by simp
next
  case (Cons n ns)
  from Cons.prems(2) obtain win B C r r' where
    w: "take_rows act (arange_plus wl n) = Inr win" and
    f: "var_fit ext win (var_order' s) (var_delta' s) = Inr (B, C)" and
    g: "getattr_call ext (Connectivity ext B C (nfft' s)) m = Inr r" and
    c: "as_c64 ext (tf_chans res) (tf_nfft res) r = Inr r'"
    by auto
  define res1 where "res1 = res\<lparr>tf_slots := (tf_slots res)[i := r']\<rparr>"
  have st: "set_slot ext res i r = Inr res1"
    using Cons.prems(1) c by (simp add: set_slot_def res1_def)
  have "\<exists>res'. getTF_loop ext s act m wl ns (i + 1) res1 = Inr res'"
  proof (rule Cons.IH)
    show "i + 1 + length ns \<le> length (tf_slots res1)"
      using Cons.prems(1) by (simp add: res1_def)
    show "\<forall>n\<in>set ns. \<exists>win B C r r'.
          take_rows act (arange_plus wl n) = Inr win \<and>
          var_fit ext win (var_order' s) (var_delta' s) = Inr (B, C) \<and>
          getattr_call ext (Connectivity ext B C (nfft' s)) m = Inr r \<and>
          as_c64 ext (tf_chans res1) (tf_nfft res1) r = Inr r'"
      using Cons.prems(2) by (simp add: res1_def)
  qed
  then show ?case using w f g st by simp
qed

lemma take_rows_window:
  assumes "0 \<le> n" "wl \<le> 0 \<or> n + wl \<le> int (length (samples act))"
  shows "take_rows act (arange_plus wl n) =
           Inr (act\<lparr>samples := take (nat wl) (drop (nat n) (samples act))\<rparr>)"
proof -
  let ?N = "int (length (samples act))"
  let ?win = "arange_plus wl n"
  have win: "?win = map (\<lambda>j. int j + n) [0..<nat wl]"
    by (simp add: arange_plus_def arange_def comp_def)
  have inb: "list_all (\<lambda>k. - ?N \<le> k \<and> k < ?N) ?win"
    using assms by (auto simp add: win list_all_iff)
  have "map (\<lambda>k. samples act ! nat (if k < 0 then k + ?N else k)) ?win =
        take (nat wl) (drop (nat n) (samples act))"
  proof (rule nth_equalityI)
    show "length (map (\<lambda>k. samples act ! nat (if k < 0 then k + ?N else k)) ?win) =
          length (take (nat wl) (drop (nat n) (samples act)))"
      using assms by (auto simp add: win)
  next
    fix j assume "j < length (map (\<lambda>k. samples act ! nat (if k < 0 then k + ?N else k)) ?win)"
    then have j: "j < nat wl" by (simp add: win)
    then have "0 < wl" by simp
    with assms have le: "n + wl \<le> ?N" by simp
    have "nat (int j + n) = nat n + j" using assms(1) by (simp add: nat_add_distrib)
    then show "map (\<lambda>k. samples act ! nat (if k < 0 then k + ?N else k)) ?win ! j =
          take (nat wl) (drop (nat n) (samples act)) ! j"
      using j assms(1) le by (simp add: win)
  qed
  with inb show ?thesis by (simp add: take_rows_def Let_def)
qed

lemma distinct_unique: "distinct (unique cl)"
  by (simp add: unique_def)

lemma set_unique: "set (unique cl) = set cl"
  by (simp add: unique_def)

lemma map_of_keys: "map_of al k \<noteq> None \<longleftrightarrow> k \<in> fst ` set al"
  by (simp add: map_of_eq_None_iff)

lemma getTF_init_Inr:
  assumes "getTF_init ext M Nstep nfft cs acc = Inr result" "distinct cs"
    "set cs \<inter> fst ` set acc = {}"
  shows "map fst result = map fst acc @ cs \<and>
         (\<forall>c. c \<notin> set cs \<longrightarrow> map_of result c = map_of acc c) \<and>
         (\<forall>c \<in> set cs. \<exists>z. np_zeros ext M Nstep nfft = Inr z \<and> map_of result c = Some z)"
  using assms
proof (induction cs arbitrary: acc)
  case Nil
  then show ?case by simp
next
  case (Cons c cs)
  from Cons.prems(1) obtain z where
    z: "np_zeros ext M Nstep nfft = Inr z" and
    rest: "getTF_init ext M Nstep nfft cs (AList.update c z acc) = Inr result"
    by (auto split: sum.splits)
  have fresh: "c \<notin> fst ` set acc" using Cons.prems(3) by auto
  have keys1: "map fst (AList.update c z acc) = map fst acc @ [c]"
    using fresh by (simp add: update_keys)
  have "set cs \<inter> fst ` set (AList.update c z acc) = {}"
    using Cons.prems(2,3) by (auto simp add: dom_update)
  with Cons.IH [OF rest] Cons.prems(2)
  have IH: "map fst result = map fst (AList.update c z acc) @ cs"
    "\<forall>c'. c' \<notin> set cs \<longrightarrow> map_of result c' = map_of (AList.update c z acc) c'"
    "\<forall>c' \<in> set cs. \<exists>z. np_zeros ext M Nstep nfft = Inr z \<and> map_of result c' = Some z"
    by simp_all
  have c: "map_of result c = Some z"
    using IH(2) Cons.prems(2) by (simp add: update_conv')
  have other: "\<forall>c'. c' \<notin> set (c # cs) \<longrightarrow> map_of result c' = map_of acc c'"
    using IH(2) by (simp add: update_conv')
  from IH(1) keys1 c z IH(3) other show ?case by auto
qed

lemma getTF_classes_Inr:
  assumes "getTF_classes ext s B C m i cs result = Inr result'" "distinct cs"
  shows "map fst result' = map fst result \<and>
     (\<forall>c. c \<notin> set cs \<longrightarrow> map_of result' c = map_of result c) \<and>
     (\<forall>c \<in> set cs. \<exists>b cv r arr r'.
        map_of B c = Some b \<and> map_of C c = Some cv \<and>
        getattr_call ext (Connectivity ext b cv (nfft' s)) m = Inr r \<and>
        map_of result c = Some arr \<and> i < length (tf_slots arr) \<and>
        as_c64 ext (tf_chans arr) (tf_nfft arr) r = Inr r' \<and>
        map_of result' c = Some (arr\<lparr>tf_slots := (tf_slots arr)[i := r']\<rparr>))"
  using assms
proof (induction cs arbitrary: result)
  case Nil
  then show ?case by simp
next
  case (Cons c cs)
  from Cons.prems(1) obtain b cv r arr arr1 where
    b: "map_of B c = Some b" and cv: "map_of C c = Some cv" and
    g: "getattr_call ext (Connectivity ext b cv (nfft' s)) m = Inr r" and
    arr: "map_of result c = Some arr" and
    st: "set_slot ext arr i r = Inr arr1" and
    rest: "getTF_classes ext s B C m i cs (AList.update c arr1 result) = Inr result'"
    by (auto split: sum.splits option.splits)
  from set_slot_Inr [OF st] obtain r' where
    i: "i < length (tf_slots arr)" and
    c64: "as_c64 ext (tf_chans arr) (tf_nfft arr) r = Inr r'" and
    arr1: "arr1 = arr\<lparr>tf_slots := (tf_slots arr)[i := r']\<rparr>"
    by blast
  from Cons.prems(2) have d: "distinct cs" "c \<notin> set cs" by simp_all
  note IH = Cons.IH [OF rest d(1)]
  have "c \<in> fst ` set result" using arr map_of_keys [of result c] by simp
  then have keys: "map fst (AList.update c arr1 result) = map fst result"
    by (simp add: update_keys)
  have 1: "map fst result' = map fst result" using IH keys by simp
  have 2: "\<forall>c'. c' \<notin> set (c # cs) \<longrightarrow> map_of result' c' = map_of result c'"
    using IH by (simp add: update_conv')
  have here: "map_of result' c = Some arr1"
    using IH d(2) by (simp add: update_conv')
  have 3: "\<forall>c' \<in> set (c # cs). \<exists>b cv r arr r'.
        map_of B c' = Some b \<and> map_of C c' = Some cv \<and>
        getattr_call ext (Connectivity ext b cv (nfft' s)) m = Inr r \<and>
        map_of result c' = Some arr \<and> i < length (tf_slots arr) \<and>
        as_c64 ext (tf_chans arr) (tf_nfft arr) r = Inr r' \<and>
        map_of result' c' = Some (arr\<lparr>tf_slots := (tf_slots arr)[i := r']\<rparr>)"
  proof
    fix c' assume c': "c' \<in> set (c # cs)"
    show "\<exists>b cv r arr r'.
        map_of B c' = Some b \<and> map_of C c' = Some cv \<and>
        getattr_call ext (Connectivity ext b cv (nfft' s)) m = Inr r \<and>
        map_of result c' = Some arr \<and> i < length (tf_slots arr) \<and>
        as_c64 ext (tf_chans arr) (tf_nfft arr) r = Inr r' \<and>
        map_of result' c' = Some (arr\<lparr>tf_slots := (tf_slots arr)[i := r']\<rparr>)"
    proof (cases "c' = c")
      case True
      then show ?thesis using b cv g arr i c64 here arr1 by blast
    next
      case False
      with c' have in_cs: "c' \<in> set cs" by simp
      with IH obtain b' cv' r2 arr' r2' where
        "map_of B c' = Some b'" "map_of C c' = Some cv'"
        "getattr_call ext (Connectivity ext b' cv' (nfft' s)) m = Inr r2"
        "map_of (AList.update c arr1 result) c' = Some arr'" "i < length (tf_slots arr')"
        "as_c64 ext (tf_chans arr') (tf_nfft arr') r2 = Inr r2'"
        "map_of result' c' = Some (arr'\<lparr>tf_slots := (tf_slots arr')[i := r2']\<rparr>)"
        by blast
      moreover from this(4) False have "map_of result c' = Some arr'"
        by (simp add: update_conv')
      ultimately show ?thesis by blast
    qed
  qed
  from 1 2 3 show ?case by blast
qed

lemma getTF_loop_classes_Inr:
  assumes "getTF_loop_classes ext s act cl m wl ns i result = Inr result'"
  shows "map fst result' = map fst result \<and>
    (\<forall>c \<in> set cl. \<forall>arr. map_of result c = Some arr \<longrightarrow>
       (\<exists>arr'. map_of result' c = Some arr' \<and>
          tf_chans arr' = tf_chans arr \<and> tf_nfft arr' = tf_nfft arr \<and>
          length (tf_slots arr') = length (tf_slots arr) \<and>
          (\<forall>j < i. tf_slots arr' ! j = tf_slots arr ! j) \<and>
          (\<forall>j < length ns. i + j < length (tf_slots arr) \<and>
             (\<exists>win B C b cv r.
                take_rows act (arange_plus wl (ns ! j)) = Inr win \<and>
                var_fit_multiclass ext win cl (var_order' s) (var_delta' s) = Inr (B, C) \<and>
                map_of B c = Some b \<and> map_of C c = Some cv \<and>
                getattr_call ext (Connectivity ext b cv (nfft' s)) m = Inr r \<and>
                as_c64 ext (tf_chans arr) (tf_nfft arr) r = Inr (tf_slots arr' ! (i + j))))))"
  using assms
proof (induction ns arbitrary: i result)
  case Nil
  then show ?case by simp
next
  case (Cons n ns)
  from Cons.prems obtain win B C result1 where
    w: "take_rows act (arange_plus wl n) = Inr win" and
    f: "var_fit_multiclass ext win cl (var_order' s) (var_delta' s) = Inr (B, C)" and
    cls: "getTF_classes ext s B C m i (unique cl) result = Inr result1" and
    rest: "getTF_loop_classes ext s act cl m wl ns (i + 1) result1 = Inr result'"
    by (auto split: sum.splits prod.splits)
  note C1 = getTF_classes_Inr [OF cls distinct_unique]
  note IH = Cons.IH [OF rest]
  have keys: "map fst result' = map fst result" using C1 IH by simp
  have "\<exists>arr'. map_of result' c = Some arr' \<and>
          tf_chans arr' = tf_chans arr \<and> tf_nfft arr' = tf_nfft arr \<and>
          length (tf_slots arr') = length (tf_slots arr) \<and>
          (\<forall>j < i. tf_slots arr' ! j = tf_slots arr ! j) \<and>
          (\<forall>j < length (n # ns). i + j < length (tf_slots arr) \<and>
             (\<exists>win B C b cv r.
                take_rows act (arange_plus wl ((n # ns) ! j)) = Inr win \<and>
                var_fit_multiclass ext win cl (var_order' s) (var_delta' s) = Inr (B, C) \<and>
                map_of B c = Some b \<and> map_of C c = Some cv \<and>
                getattr_call ext (Connectivity ext b cv (nfft' s)) m = Inr r \<and>
                as_c64 ext (tf_chans arr) (tf_nfft arr) r = Inr (tf_slots arr' ! (i + j))))"
    if c: "c \<in> set cl" and arr: "map_of result c = Some arr" for c arr
  proof -
    from c have "c \<in> set (unique cl)" by (simp add: set_unique)
    with C1 arr obtain b cv r r' where
      b: "map_of B c = Some b" and cv: "map_of C c = Some cv" and
      g: "getattr_call ext (Connectivity ext b cv (nfft' s)) m = Inr r" and
      i: "i < length (tf_slots arr)" and
      c64: "as_c64 ext (tf_chans arr) (tf_nfft arr) r = Inr r'" and
      r1: "map_of result1 c = Some (arr\<lparr>tf_slots := (tf_slots arr)[i := r']\<rparr>)"
      by fastforce
    let ?arr1 = "arr\<lparr>tf_slots := (tf_slots arr)[i := r']\<rparr>"
    from IH c r1 obtain arr' where
      a': "map_of result' c = Some arr'" and
      dims: "tf_chans arr' = tf_chans ?arr1" "tf_nfft arr' = tf_nfft ?arr1"
        "length (tf_slots arr') = length (tf_slots ?arr1)" and
      before: "\<forall>j < i + 1. tf_slots arr' ! j = tf_slots ?arr1 ! j" and
      after: "\<forall>j < length ns. i + 1 + j < length (tf_slots ?arr1) \<and>
             (\<exists>win B C b cv r.
                take_rows act (arange_plus wl (ns ! j)) = Inr win \<and>
                var_fit_multiclass ext win cl (var_order' s) (var_delta' s) = Inr (B, C) \<and>
                map_of B c = Some b \<and> map_of C c = Some cv \<and>
                getattr_call ext (Connectivity ext b cv (nfft' s)) m = Inr r \<and>
                as_c64 ext (tf_chans ?arr1) (tf_nfft ?arr1) r = Inr (tf_slots arr' ! (i + 1 + j)))"
      by blast
    have at_i: "tf_slots arr' ! i = r'" using before i by simp
    have old: "\<forall>j < i. tf_slots arr' ! j = tf_slots arr ! j" using before by simp
    have new: "i + j < length (tf_slots arr) \<and>
             (\<exists>win B C b cv r.
                take_rows act (arange_plus wl ((n # ns) ! j)) = Inr win \<and>
                var_fit_multiclass ext win cl (var_order' s) (var_delta' s) = Inr (B, C) \<and>
                map_of B c = Some b \<and> map_of C c = Some cv \<and>
                getattr_call ext (Connectivity ext b cv (nfft' s)) m = Inr r \<and>
                as_c64 ext (tf_chans arr) (tf_nfft arr) r = Inr (tf_slots arr' ! (i + j)))"
      if j: "j < length (n # ns)" for j
    proof (cases j)
      case 0
      then show ?thesis using w f b cv g c64 at_i i by auto
    next
      case (Suc j')
      with j have "j' < length ns" by simp
      with after show ?thesis using Suc by simp
    qed
    from a' dims old new show ?thesis by simp
  qed
  with keys show ?case by blast
qed

lemma fitVAR_loop_Inr:
  assumes "fitVAR_loop ext B C nfft cs con = (con', Inr ())" "distinct cs"
    "set cs \<inter> fst ` set con = {}"
  shows "map fst con' = map fst con @ cs \<and>
         (\<forall>c. c \<notin> set cs \<longrightarrow> map_of con' c = map_of con c) \<and>
         (\<forall>c \<in> set cs. \<exists>b cv. map_of B c = Some b \<and> map_of C c = Some cv \<and>
                              map_of con' c = Some (Connectivity ext b cv nfft))"
  using assms
proof (induction cs arbitrary: con)
  case Nil
  then show ?case by simp
next
  case (Cons c cs)
  from Cons.prems(1) obtain b cv where
    b: "map_of B c = Some b" and cv: "map_of C c = Some cv" and
    rest: "fitVAR_loop ext B C nfft cs (AList.update c (Connectivity ext b cv nfft) con) = (con', Inr ())"
    by (auto split: option.splits)
  let ?con1 = "AList.update c (Connectivity ext b cv nfft) con"
  have fresh: "c \<notin> fst ` set con" using Cons.prems(3) by auto
  have keys1: "map fst ?con1 = map fst con @ [c]"
    using fresh by (simp add: update_keys)
  have "set cs \<inter> fst ` set ?con1 = {}"
    using Cons.prems(2,3) by (auto simp add: dom_update)
  with Cons.IH [OF rest] Cons.prems(2)
  have IH: "map fst con' = map fst ?con1 @ cs"
    "\<forall>c'. c' \<notin> set cs \<longrightarrow> map_of con' c' = map_of ?con1 c'"
    "\<forall>c' \<in> set cs. \<exists>b cv. map_of B c' = Some b \<and> map_of C c' = Some cv \<and>
                              map_of con' c' = Some (Connectivity ext b cv nfft)"
    by simp_all
  have c: "map_of con' c = Some (Connectivity ext b cv nfft)"
    using IH(2) Cons.prems(2) by (simp add: update_conv')
  have other: "\<forall>c'. c' \<notin> set (c # cs) \<longrightarrow> map_of con' c' = map_of con c'"
    using IH(2) by (simp add: update_conv')
  from IH(1) keys1 c b cv IH(3) other show ?case by auto
qed

lemma fitVAR_loop_ok:
  assumes "\<forall>c \<in> set cs. map_of B c \<noteq> None \<and> map_of C c \<noteq> None"
  shows "\<exists>con'. fitVAR_loop ext B C nfft cs con = (con', Inr ())"
  using assms by (induction cs arbitrary: con) auto

lemma getConnectivity_loop_Inr:
  assumes "getConnectivity_loop ext con m cs acc = Inr rs" "distinct cs"
    "set cs \<inter> fst ` set acc = {}"
  shows "map fst rs = map fst acc @ cs \<and>
         (\<forall>c. c \<notin> set cs \<longrightarrow> map_of rs c = map_of acc c) \<and>
         (\<forall>c \<in> set cs. \<exists>k r. map_of con c = Some k \<and> getattr_call ext k m = Inr r \<and>
                             map_of rs c = Some r)"
  using assms
proof (induction cs arbitrary: acc)
  case Nil
  then show ?case by simp
next
  case (Cons c cs)
  from Cons.prems(1) obtain k r where
    k: "map_of con c = Some k" and g: "getattr_call ext k m = Inr r" and
    rest: "getConnectivity_loop ext con m cs (AList.update c r acc) = Inr rs"
    by (auto split: option.splits sum.splits)
  let ?acc1 = "AList.update c r acc"
  have fresh: "c \<notin> fst ` set acc" using Cons.prems(3) by auto
  have keys1: "map fst ?acc1 = map fst acc @ [c]"
    using fresh by (simp add: update_keys)
  have "set cs \<inter> fst ` set ?acc1 = {}"
    using Cons.prems(2,3) by (auto simp add: dom_update)
  with Cons.IH [OF rest] Cons.prems(2)
  have IH: "map fst rs = map fst ?acc1 @ cs"
    "\<forall>c'. c' \<notin> set cs \<longrightarrow> map_of rs c' = map_of ?acc1 c'"
    "\<forall>c' \<in> set cs. \<exists>k r. map_of con c' = Some k \<and> getattr_call ext k m = Inr r \<and>
                             map_of rs c' = Some r"
    by simp_all
  have c: "map_of rs c = Some r"
    using IH(2) Cons.prems(2) by (simp add: update_conv')
  have other: "\<forall>c'. c' \<notin> set (c # cs) \<longrightarrow> map_of rs c' = map_of acc c'"
    using IH(2) by (simp add: update_conv')
  from IH(1) keys1 c k g IH(3) other show ?case by auto
qed

lemma getConnectivity_loop_ok:
  assumes "\<forall>c \<in> set cs. \<exists>k r. map_of con c = Some k \<and> getattr_call ext k m = Inr r"
  shows "\<exists>rs. getConnectivity_loop ext con m cs acc = Inr rs"
  using assms by (induction cs arbitrary: acc) auto

lemma getTF_loop_classes_fits:
  assumes "getTF_loop_classes ext s act cl m wl ns i result = Inr result'" "j < length ns"
  shows "\<exists>win B C. take_rows act (arange_plus wl (ns ! j)) = Inr win \<and>
           var_fit_multiclass ext win cl (var_order' s) (var_delta' s) = Inr (B, C)"
  using assms
proof (induction ns arbitrary: i result j)
  case Nil
  then show ?case by simp
next
  case (Cons n ns)
  from Cons.prems(1) obtain win B C result1 where
    w: "take_rows act (arange_plus wl n) = Inr win" and
    f: "var_fit_multiclass ext win cl (var_order' s) (var_delta' s) = Inr (B, C)" and
    rest: "getTF_loop_classes ext s act cl m wl ns (i + 1) result1 = Inr result'"
    by (auto split: sum.splits prod.splits)
  show ?case
  proof (cases j)
    case 0
    then show ?thesis using w f by simp
  next
    case (Suc j')
    with Cons.prems(2) have "j' < length ns" by simp
    from Cons.IH [OF rest this] show ?thesis using Suc by simp
  qed
qed

lemma np_zeros_Inr:
  "np_zeros ext M Nstep nfft = Inr z \<Longrightarrow>
     tf_chans z = M \<and> tf_nfft z = nat nfft \<and> length (tf_slots z) = nat Nstep \<and>
     0 \<le> Nstep \<and> 0 \<le> nfft \<and> (\<forall>j < nat Nstep. tf_slots z ! j = zeros_c64 ext M (nat nfft))"
  by (auto simp add: np_zeros_def split: if_splits)

lemma single_shot_single:
  assumes "cl' s = None" "var_fit ext win (var_order' s) (var_delta' s) = Inr (B, C)"
    "getattr_call ext (Connectivity ext B C (nfft' s)) m = Inr r"
  shows "single_shot ext s win m = Inr (Single r)"
  using assms by (simp add: single_shot_def fitVAR_def getConnectivity_def)

lemma single_shot_classes:
  assumes cl: "cl' s = Some cl"
    and fit: "var_fit_multiclass ext win cl (var_order' s) (var_delta' s) = Inr (B, C)"
    and each: "\<forall>c \<in> set cl. \<exists>b cv r. map_of B c = Some b \<and> map_of C c = Some cv \<and>
                 getattr_call ext (Connectivity ext b cv (nfft' s)) m = Inr r"
  shows "\<exists>rs. single_shot ext s win m = Inr (PerClass rs) \<and> map fst rs = unique cl \<and>
           (\<forall>c \<in> set cl. \<exists>b cv r. map_of B c = Some b \<and> map_of C c = Some cv \<and>
                 getattr_call ext (Connectivity ext b cv (nfft' s)) m = Inr r \<and>
                 map_of rs c = Some r)"
proof -
  from each have "\<forall>c \<in> set (unique cl). map_of B c \<noteq> None \<and> map_of C c \<noteq> None"
    by (fastforce simp add: set_unique)
  from fitVAR_loop_ok [OF this] obtain con where
    con: "fitVAR_loop ext B C (nfft' s) (unique cl) [] = (con, Inr ())" by blast
  from fitVAR_loop_Inr [OF con distinct_unique]
  have conk: "\<forall>c \<in> set cl. \<exists>b cv. map_of B c = Some b \<and> map_of C c = Some cv \<and>
                 map_of con c = Some (Connectivity ext b cv (nfft' s))"
    by (simp add: set_unique)
  have "\<forall>c \<in> set (unique cl). \<exists>k r. map_of con c = Some k \<and> getattr_call ext k m = Inr r"
  proof
    fix c assume "c \<in> set (unique cl)"
    then have c: "c \<in> set cl" by (simp add: set_unique)
    with conk obtain b cv where
      1: "map_of B c = Some b" "map_of C c = Some cv"
         "map_of con c = Some (Connectivity ext b cv (nfft' s))" by blast
    from each c obtain b' cv' r where
      2: "map_of B c = Some b'" "map_of C c = Some cv'"
         "getattr_call ext (Connectivity ext b' cv' (nfft' s)) m = Inr r" by blast
    from 1 2 show "\<exists>k r. map_of con c = Some k \<and> getattr_call ext k m = Inr r" by auto
  qed
  from getConnectivity_loop_ok [OF this] obtain rs where
    rs: "getConnectivity_loop ext con m (unique cl) [] = Inr rs" by blast
  from getConnectivity_loop_Inr [OF rs distinct_unique]
  have rsk: "map fst rs = unique cl"
    "\<forall>c \<in> set cl. \<exists>k r. map_of con c = Some k \<and> getattr_call ext k m = Inr r \<and>
                             map_of rs c = Some r"
    by (simp_all add: set_unique)
  have run: "single_shot ext s win m = Inr (PerClass rs)"
    using cl fit con rs by (simp add: single_shot_def fitVAR_def getConnectivity_def)
  have "\<exists>b cv r. map_of B c = Some b \<and> map_of C c = Some cv \<and>
                 getattr_call ext (Connectivity ext b cv (nfft' s)) m = Inr r \<and>
                 map_of rs c = Some r" if c: "c \<in> set cl" for c
  proof -
    from conk c obtain b cv where
      1: "map_of B c = Some b" "map_of C c = Some cv"
         "map_of con c = Some (Connectivity ext b cv (nfft' s))" by blast
    from rsk(2) c obtain k r where
      2: "map_of con c = Some k" "getattr_call ext k m = Inr r" "map_of rs c = Some r" by blast
    from 1 2 show ?thesis by auto
  qed
  with run rsk(1) show ?thesis by blast
qed

lemma getTF_loop_classes_append:
  "getTF_loop_classes ext s act cl m wl (pre @ post) i res =
     (case getTF_loop_classes ext s act cl m wl pre i res of
        Inl e \<Rightarrow> Inl e
      | Inr res1 \<Rightarrow> getTF_loop_classes ext s act cl m wl post (i + length pre) res1)"
  by (induction pre arbitrary: i res) (auto split: sum.splits prod.splits)

lemma getTF_loop_classes_fit_fails:
  assumes "n \<in> set ns" "take_rows act (arange_plus wl n) = Inr win"
    "var_fit_multiclass ext win cl (var_order' s) (var_delta' s) = Inl e"
  shows "\<exists>e'. getTF_loop_classes ext s act cl m wl ns i res = Inl e'"
  using assms by (induction ns arbitrary: i res) (auto split: sum.splits prod.splits)

lemma window_is_slice:
  assumes i: "i < length (py_range (int (length (samples act)) - winlen) winstep)"
    and pos: "0 < winstep"
  shows "take_rows act
           (arange_plus winlen (py_range (int (length (samples act)) - winlen) winstep ! i)) =
         Inr (act\<lparr>samples := take (nat winlen) (drop (i * nat winstep) (samples act))\<rparr>)"
proof -
  let ?N = "int (length (samples act))"
  let ?ns = "py_range (?N - winlen) winstep"
  let ?n = "?ns ! i"
  from i have "?n \<in> set ?ns" by simp
  from py_range_bounds [OF pos this] have b: "0 \<le> ?n" "?n < ?N - winlen" by simp_all
  have n: "?n = int i * winstep" using i by (rule nth_py_range)
  then have "nat ?n = i * nat winstep" using pos by (simp add: nat_mult_distrib)
  moreover from b have "winlen \<le> 0 \<or> ?n + winlen \<le> ?N" by simp
  ultimately show ?thesis using take_rows_window [OF b(1), of winlen act] by simp
qed

lemma getTF_single_out:
  assumes act: "activations' s = Some act" and cl: "cl' s = None"
    and run: "getTFConnectivity ext s m winlen winstep = (s', Inr out)"
  shows "\<exists>res0 arr. out = Single arr \<and> winstep \<noteq> 0 \<and>
           np_zeros ext (chans act) ((int (length (samples act)) - winlen) div winstep) (nfft' s)
             = Inr res0 \<and>
           getTF_loop ext s act m winlen
             (py_range (int (length (samples act)) - winlen) winstep) 0 res0 = Inr arr"
  using assms
  by (auto simp add: getTFConnectivity_def shape3_def Let_def split: sum.splits if_splits)

lemma getTF_classes_out:
  assumes act: "activations' s = Some act" and cl: "cl' s = Some cl"
    and run: "getTFConnectivity ext s m winlen winstep = (s', Inr out)"
  shows "\<exists>res0 d. out = PerClass d \<and> winstep \<noteq> 0 \<and>
           getTF_init ext (chans act) ((int (length (samples act)) - winlen) div winstep) (nfft' s)
             (unique cl) [] = Inr res0 \<and>
           getTF_loop_classes ext s act cl m winlen
             (py_range (int (length (samples act)) - winlen) winstep) 0 res0 = Inr d"
  using assms
  by (auto simp add: getTFConnectivity_def shape3_def Let_def split: sum.splits if_splits)

lemma getTF_single_slot:
  assumes act: "activations' s = Some act" and cl: "cl' s = None"
    and run: "getTFConnectivity ext s m winlen winstep = (s', Inr out)"
  shows "\<exists>arr. out = Single arr \<and> tf_chans arr = chans act \<and> tf_nfft arr = nat (nfft' s) \<and>
           length (tf_slots arr) = nat ((int (length (samples act)) - winlen) div winstep) \<and>
           (\<forall>i < length (py_range (int (length (samples act)) - winlen) winstep).
              i < length (tf_slots arr) \<and>
              (\<exists>win r.
                 take_rows act (arange_plus winlen
                   (py_range (int (length (samples act)) - winlen) winstep ! i)) = Inr win \<and>
                 single_shot ext s win m = Inr (Single r) \<and>
                 as_c64 ext (chans act) (nat (nfft' s)) r = Inr (tf_slots arr ! i)))"
proof -
  let ?ns = "py_range (int (length (samples act)) - winlen) winstep"
  from getTF_single_out [OF act cl run] obtain res0 arr where
    out: "out = Single arr" and
    z: "np_zeros ext (chans act) ((int (length (samples act)) - winlen) div winstep) (nfft' s)
          = Inr res0" and
    loop: "getTF_loop ext s act m winlen ?ns 0 res0 = Inr arr"
    by blast
  note L = getTF_loop_Inr [OF loop]
  note Z = np_zeros_Inr [OF z]
  have "i < length (tf_slots arr) \<and>
              (\<exists>win r.
                 take_rows act (arange_plus winlen (?ns ! i)) = Inr win \<and>
                 single_shot ext s win m = Inr (Single r) \<and>
                 as_c64 ext (chans act) (nat (nfft' s)) r = Inr (tf_slots arr ! i))"
    if i: "i < length ?ns" for i
  proof -
    from i have ne: "?ns \<noteq> []" by auto
    with L have "length ?ns \<le> length (tf_slots res0)" by simp
    with i L have ilen: "i < length (tf_slots arr)" by simp
    from L i obtain win B C r where
      w: "take_rows act (arange_plus winlen (?ns ! i)) = Inr win" and
      f: "var_fit ext win (var_order' s) (var_delta' s) = Inr (B, C)" and
      g: "getattr_call ext (Connectivity ext B C (nfft' s)) m = Inr r" and
      c: "as_c64 ext (tf_chans res0) (tf_nfft res0) r = Inr (tf_slots arr ! (0 + i))"
      by blast
    from Z c have "as_c64 ext (chans act) (nat (nfft' s)) r = Inr (tf_slots arr ! i)" by simp
    with single_shot_single [OF cl f g] w ilen show ?thesis by blast
  qed
  with out L Z show ?thesis by simp
qed

lemma getTF_classes_slot:
  assumes act: "activations' s = Some act" and cl: "cl' s = Some cl"
    and run: "getTFConnectivity ext s m winlen winstep = (s', Inr out)"
  shows "\<exists>d. out = PerClass d \<and> map fst d = unique cl \<and>
           (\<forall>c \<in> set cl. \<exists>arr. map_of d c = Some arr \<and> tf_chans arr = chans act \<and>
              tf_nfft arr = nat (nfft' s) \<and>
              length (tf_slots arr) = nat ((int (length (samples act)) - winlen) div winstep)) \<and>
           (\<forall>i < length (py_range (int (length (samples act)) - winlen) winstep).
              \<exists>win rs.
                take_rows act (arange_plus winlen
                  (py_range (int (length (samples act)) - winlen) winstep ! i)) = Inr win \<and>
                single_shot ext s win m = Inr (PerClass rs) \<and> map fst rs = unique cl \<and>
                (\<forall>c \<in> set cl. \<exists>arr r. map_of d c = Some arr \<and> map_of rs c = Some r \<and>
                   i < length (tf_slots arr) \<and>
                   as_c64 ext (chans act) (nat (nfft' s)) r = Inr (tf_slots arr ! i)))"
proof -
  let ?ns = "py_range (int (length (samples act)) - winlen) winstep"
  let ?Nstep = "(int (length (samples act)) - winlen) div winstep"
  from getTF_classes_out [OF act cl run] obtain res0 d where
    out: "out = PerClass d" and
    init: "getTF_init ext (chans act) ?Nstep (nfft' s) (unique cl) [] = Inr res0" and
    loop: "getTF_loop_classes ext s act cl m winlen ?ns 0 res0 = Inr d"
    by blast
  from getTF_init_Inr [OF init distinct_unique]
  have k0: "map fst res0 = unique cl"
    and z0: "\<forall>c \<in> set cl. \<exists>z. np_zeros ext (chans act) ?Nstep (nfft' s) = Inr z \<and>
                map_of res0 c = Some z"
    by (simp_all add: set_unique)
  note L = getTF_loop_classes_Inr [OF loop]
  from L k0 have kd: "map fst d = unique cl" by simp
  have dims: "\<exists>arr. map_of d c = Some arr \<and> tf_chans arr = chans act \<and>
              tf_nfft arr = nat (nfft' s) \<and> length (tf_slots arr) = nat ?Nstep"
    if c: "c \<in> set cl" for c
  proof -
    from z0 c obtain z where
      z: "np_zeros ext (chans act) ?Nstep (nfft' s) = Inr z" "map_of res0 c = Some z" by blast
    from L c z(2) obtain arr where
      "map_of d c = Some arr" "tf_chans arr = tf_chans z" "tf_nfft arr = tf_nfft z"
      "length (tf_slots arr) = length (tf_slots z)"
      by blast
    with np_zeros_Inr [OF z(1)] show ?thesis by simp
  qed
  have slots: "\<exists>win rs.
                take_rows act (arange_plus winlen (?ns ! i)) = Inr win \<and>
                single_shot ext s win m = Inr (PerClass rs) \<and> map fst rs = unique cl \<and>
                (\<forall>c \<in> set cl. \<exists>arr r. map_of d c = Some arr \<and> map_of rs c = Some r \<and>
                   i < length (tf_slots arr) \<and>
                   as_c64 ext (chans act) (nat (nfft' s)) r = Inr (tf_slots arr ! i))"
    if i: "i < length ?ns" for i
  proof -
    from getTF_loop_classes_fits [OF loop i] obtain win B C where
      w: "take_rows act (arange_plus winlen (?ns ! i)) = Inr win" and
      f: "var_fit_multiclass ext win cl (var_order' s) (var_delta' s) = Inr (B, C)"
      by blast
    have per: "\<exists>arr b cv r. map_of d c = Some arr \<and> i < length (tf_slots arr) \<and>
                 map_of B c = Some b \<and> map_of C c = Some cv \<and>
                 getattr_call ext (Connectivity ext b cv (nfft' s)) m = Inr r \<and>
                 as_c64 ext (chans act) (nat (nfft' s)) r = Inr (tf_slots arr ! i)"
      if c: "c \<in> set cl" for c
    proof -
      from z0 c obtain z where
        z: "np_zeros ext (chans act) ?Nstep (nfft' s) = Inr z" "map_of res0 c = Some z" by blast
      from L c z(2) obtain arr where
        a: "map_of d c = Some arr" "length (tf_slots arr) = length (tf_slots z)" and
        sl: "\<forall>j < length ?ns. 0 + j < length (tf_slots z) \<and>
             (\<exists>win B C b cv r.
                take_rows act (arange_plus winlen (?ns ! j)) = Inr win \<and>
                var_fit_multiclass ext win cl (var_order' s) (var_delta' s) = Inr (B, C) \<and>
                map_of B c = Some b \<and> map_of C c = Some cv \<and>
                getattr_call ext (Connectivity ext b cv (nfft' s)) m = Inr r \<and>
                as_c64 ext (tf_chans z) (tf_nfft z) r = Inr (tf_slots arr ! (0 + j)))"
        by blast
      from sl i obtain win' B' C' b cv r where
        il: "i < length (tf_slots z)" and
        w': "take_rows act (arange_plus winlen (?ns ! i)) = Inr win'" and
        f': "var_fit_multiclass ext win' cl (var_order' s) (var_delta' s) = Inr (B', C')" and
        r: "map_of B' c = Some b" "map_of C' c = Some cv"
           "getattr_call ext (Connectivity ext b cv (nfft' s)) m = Inr r"
           "as_c64 ext (tf_chans z) (tf_nfft z) r = Inr (tf_slots arr ! (0 + i))"
        by fastforce
      from w w' have "win' = win" by simp
      with f f' have "B' = B" "C' = C" by simp_all
      with r np_zeros_Inr [OF z(1)] a il show ?thesis by auto
    qed
    then have "\<forall>c \<in> set cl. \<exists>b cv r. map_of B c = Some b \<and> map_of C c = Some cv \<and>
                 getattr_call ext (Connectivity ext b cv (nfft' s)) m = Inr r"
      by blast
    from single_shot_classes [OF cl f this] obtain rs where
      ss: "single_shot ext s win m = Inr (PerClass rs)" and krs: "map fst rs = unique cl" and
      rsv: "\<forall>c \<in> set cl. \<exists>b cv r. map_of B c = Some b \<and> map_of C c = Some cv \<and>
                 getattr_call ext (Connectivity ext b cv (nfft' s)) m = Inr r \<and>
                 map_of rs c = Some r"
      by blast
    have "\<forall>c \<in> set cl. \<exists>arr r. map_of d c = Some arr \<and> map_of rs c = Some r \<and>
                 i < length (tf_slots arr) \<and>
                 as_c64 ext (chans act) (nat (nfft' s)) r = Inr (tf_slots arr ! i)"
    proof
      fix c assume c: "c \<in> set cl"
      from per [OF c] obtain arr b cv r where
        1: "map_of d c = Some arr" "i < length (tf_slots arr)"
           "map_of B c = Some b" "map_of C c = Some cv"
           "getattr_call ext (Connectivity ext b cv (nfft' s)) m = Inr r"
           "as_c64 ext (chans act) (nat (nfft' s)) r = Inr (tf_slots arr ! i)" by blast
      from rsv c obtain b' cv' r' where
        2: "map_of B c = Some b'" "map_of C c = Some cv'"
           "getattr_call ext (Connectivity ext b' cv' (nfft' s)) m = Inr r'"
           "map_of rs c = Some r'" by blast
      from 1 2 have "r' = r" by simp
      with 1 2 show "\<exists>arr r. map_of d c = Some arr \<and> map_of rs c = Some r \<and>
                 i < length (tf_slots arr) \<and>
                 as_c64 ext (chans act) (nat (nfft' s)) r = Inr (tf_slots arr ! i)" by blast
    qed
    with w ss krs show ?thesis by blast
  qed
  from out kd dims slots show ?thesis by blast
qed

lemma getTF_loop_last_overflows:
  assumes ns: "ns \<noteq> []" and len: "length ns = length (tf_slots res0) + 1"
    and ok: "\<forall>n \<in> set ns. \<exists>win B C r r'.
          take_rows act (arange_plus wl n) = Inr win \<and>
          var_fit ext win (var_order' s) (var_delta' s) = Inr (B, C) \<and>
          getattr_call ext (Connectivity ext B C (nfft' s)) m = Inr r \<and>
          as_c64 ext (tf_chans res0) (tf_nfft res0) r = Inr r'"
  shows "getTF_loop ext s act m wl ns 0 res0 = Inl IndexError"
proof -
  have split: "ns = butlast ns @ [last ns]" using ns by simp
  have lb: "length (butlast ns) = length (tf_slots res0)" using len by simp
  have "\<forall>n \<in> set (butlast ns). \<exists>win B C r r'.
          take_rows act (arange_plus wl n) = Inr win \<and>
          var_fit ext win (var_order' s) (var_delta' s) = Inr (B, C) \<and>
          getattr_call ext (Connectivity ext B C (nfft' s)) m = Inr r \<and>
          as_c64 ext (tf_chans res0) (tf_nfft res0) r = Inr r'"
    using ok by (meson in_set_butlastD)
  with getTF_loop_succeeds [of 0 "butlast ns" res0 act wl ext s m] lb
  obtain res1 where r1: "getTF_loop ext s act m wl (butlast ns) 0 res0 = Inr res1" by auto
  from getTF_loop_Inr [OF r1] have l1: "length (tf_slots res1) = length (tf_slots res0)" by simp
  from ok ns obtain win B C r where
    "take_rows act (arange_plus wl (last ns)) = Inr win"
    "var_fit ext win (var_order' s) (var_delta' s) = Inr (B, C)"
    "getattr_call ext (Connectivity ext B C (nfft' s)) m = Inr r"
    by (meson last_in_set)
  then have "getTF_loop ext s act m wl [last ns] (length (butlast ns)) res1 = Inl IndexError"
    using l1 lb by (simp add: set_slot_def)
  with r1 have "getTF_loop ext s act m wl (butlast ns @ [last ns]) 0 res0 = Inl IndexError"
    by (simp add: getTF_loop_append)
  with split show ?thesis by simp
qed

lemma getTF_single_count:
  assumes act: "activations' s = Some act" and cl: "cl' s = None"
    and run: "getTFConnectivity ext s m winlen winstep = (s', Inr out)"
  shows "length (py_range (int (length (samples act)) - winlen) winstep) \<le>
           nat ((int (length (samples act)) - winlen) div winstep)"
proof -
  let ?ns = "py_range (int (length (samples act)) - winlen) winstep"
  from getTF_single_out [OF act cl run] obtain res0 arr where
    z: "np_zeros ext (chans act) ((int (length (samples act)) - winlen) div winstep) (nfft' s)
          = Inr res0" and
    loop: "getTF_loop ext s act m winlen ?ns 0 res0 = Inr arr"
    by blast
  from getTF_loop_Inr [OF loop] have "?ns \<noteq> [] \<longrightarrow> length ?ns \<le> length (tf_slots res0)"
    by simp
  with np_zeros_Inr [OF z] show ?thesis by (cases "?ns = []") simp_all
qed

lemma getTF_classes_count:
  assumes act: "activations' s = Some act" and cl: "cl' s = Some cl" and ne: "cl \<noteq> []"
    and run: "getTFConnectivity ext s m winlen winstep = (s', Inr out)"
  shows "length (py_range (int (length (samples act)) - winlen) winstep) \<le>
           nat ((int (length (samples act)) - winlen) div winstep)"
proof -
  let ?ns = "py_range (int (length (samples act)) - winlen) winstep"
  let ?Nstep = "(int (length (samples act)) - winlen) div winstep"
  define c where "c = hd cl"
  from ne have c: "c \<in> set cl" by (simp add: c_def)
  from getTF_classes_out [OF act cl run] obtain res0 d where
    init: "getTF_init ext (chans act) ?Nstep (nfft' s) (unique cl) [] = Inr res0" and
    loop: "getTF_loop_classes ext s act cl m winlen ?ns 0 res0 = Inr d"
    by blast
  from getTF_init_Inr [OF init distinct_unique] c obtain z where
    z: "np_zeros ext (chans act) ?Nstep (nfft' s) = Inr z" "map_of res0 c = Some z"
    by (auto simp add: set_unique)
  from getTF_loop_classes_Inr [OF loop] c z(2)
  have all: "\<forall>j < length ?ns. j < length (tf_slots z)" by fastforce
  have "length ?ns \<le> length (tf_slots z)"
  proof (rule ccontr)
    assume "\<not> length ?ns \<le> length (tf_slots z)"
    then have "length (tf_slots z) < length ?ns" by simp
    with all have "length (tf_slots z) < length (tf_slots z)" by blast
    then show False by simp
  qed
  with np_zeros_Inr [OF z(1)] show ?thesis by simp
qed

lemma sum_case_bool:
  "(case x of Inl e \<Rightarrow> False | Inr r \<Rightarrow> P r) \<longleftrightarrow> (\<exists>r. x = Inr r \<and> P r)"
  by (cases x) auto

lemma window_measure_Inr:
  "window_measure ext s act m wl n = Inr r \<longleftrightarrow>
     (\<exists>win B C. take_rows act (arange_plus wl n) = Inr win \<and>
        var_fit ext win (var_order' s) (var_delta' s) = Inr (B, C) \<and>
        getattr_call ext (Connectivity ext B C (nfft' s)) m = Inr r)"
proof (cases "take_rows act (arange_plus wl n)")
  case (Inl e)
  then show ?thesis by (simp add: window_measure_def)
next
  case (Inr win)
  show ?thesis
  proof (cases "var_fit ext win (var_order' s) (var_delta' s)")
    case (Inl e)
    with Inr show ?thesis by (simp add: window_measure_def)
  next
    case fit: (Inr BC)
    obtain B C where "BC = (B, C)" by (cases BC)
    with Inr fit show ?thesis by (simp add: window_measure_def)
  qed
qed

lemma windows_ok_iff:
  "windows_ok ext s act m wl ns \<longleftrightarrow>
     (\<forall>n \<in> set ns. \<exists>win B C r r'.
        take_rows act (arange_plus wl n) = Inr win \<and>
        var_fit ext win (var_order' s) (var_delta' s) = Inr (B, C) \<and>
        getattr_call ext (Connectivity ext B C (nfft' s)) m = Inr r \<and>
        as_c64 ext (chans act) (nat (nfft' s)) r = Inr r')"
proof -
  have "(case window_measure ext s act m wl n of
           Inl e \<Rightarrow> False
         | Inr r \<Rightarrow> (case as_c64 ext (chans act) (nat (nfft' s)) r of
                      Inl e \<Rightarrow> False | Inr r' \<Rightarrow> True)) \<longleftrightarrow>
        (\<exists>win B C r r'.
           take_rows act (arange_plus wl n) = Inr win \<and>
           var_fit ext win (var_order' s) (var_delta' s) = Inr (B, C) \<and>
           getattr_call ext (Connectivity ext B C (nfft' s)) m = Inr r \<and>
           as_c64 ext (chans act) (nat (nfft' s)) r = Inr r')" for n
    unfolding sum_case_bool window_measure_Inr by blast
  then show ?thesis by (simp add: windows_ok_def list_all_iff)
qed

lemma getTF_full_windows:
  assumes act: "activations' s = Some act" and cl: "cl' s = None"
    and ws: "0 < winstep" and wl: "winlen \<le> int (length (samples act))"
    and dv: "winstep dvd (int (length (samples act)) - winlen)"
    and nf: "0 \<le> nfft' s"
    and ok: "windows_ok ext s act m winlen
               (py_range (int (length (samples act)) - winlen) winstep)"
  shows "\<exists>arr. getTFConnectivity ext s m winlen winstep = (s, Inr (Single arr))"
proof -
  let ?stop = "int (length (samples act)) - winlen"
  let ?ns = "py_range ?stop winstep"
  let ?Nstep = "?stop div winstep"
  from wl have stop: "0 \<le> ?stop" by simp
  have count: "length ?ns = nat ?Nstep" using ws stop dv by (rule py_range_count_dvd)
  have q: "0 \<le> ?Nstep" using ws stop by (simp add: pos_imp_zdiv_nonneg_iff)
  define res0 :: "'f tfarray" where
    "res0 = \<lparr>tf_chans = chans act, tf_nfft = nat (nfft' s),
             tf_slots = replicate (nat ?Nstep) (zeros_c64 ext (chans act) (nat (nfft' s)))\<rparr>"
  have z: "np_zeros ext (chans act) ?Nstep (nfft' s) = Inr res0"
    using q nf by (simp add: np_zeros_def res0_def)
  have "\<exists>arr. getTF_loop ext s act m winlen ?ns 0 res0 = Inr arr"
  proof (rule getTF_loop_succeeds)
    show "0 + length ?ns \<le> length (tf_slots res0)" using count by (simp add: res0_def)
    show "\<forall>n\<in>set ?ns. \<exists>win B C r r'.
          take_rows act (arange_plus winlen n) = Inr win \<and>
          var_fit ext win (var_order' s) (var_delta' s) = Inr (B, C) \<and>
          getattr_call ext (Connectivity ext B C (nfft' s)) m = Inr r \<and>
          as_c64 ext (tf_chans res0) (tf_nfft res0) r = Inr r'"
      using ok by (simp add: windows_ok_iff res0_def)
  qed
  then obtain arr where "getTF_loop ext s act m winlen ?ns 0 res0 = Inr arr" by blast
  with z act cl ws have "getTFConnectivity ext s m winlen winstep = (s, Inr (Single arr))"
    by (simp add: getTFConnectivity_def shape3_def Let_def)
  then show ?thesis by blast
qed

subsection \<open>The number of windows\<close>

text \<open>
  Claim C1. The result array has \<open>Nstep = (N - winlen) div winstep\<close> window slots, while
  the loop runs over the offsets \<open>0, winstep, 2 * winstep, ...\<close> below \<open>N - winlen\<close>. For a
  positive step that does not divide \<open>N - winlen\<close> (and \<open>winlen < N\<close>) there is one offset
  more than there are slots, and the call never returns a result: it raises, with no class
  labels and with at least one class label. When there are no class labels and every
  window is fitted, evaluated and converted without an error, what it raises is the
  IndexError of the assignment to the slot \<open>Nstep\<close>, which the array does not have.
\<close>

theorem getTFConnectivity_extra_window:
  assumes act: "activations' s = Some act"
    and cls: "cl' s = None \<or> (\<exists>cl. cl' s = Some cl \<and> cl \<noteq> [])"
    and ws: "0 < winstep" and wl: "winlen < int (length (samples act))"
    and nd: "\<not> winstep dvd (int (length (samples act)) - winlen)"
  shows "length (py_range (int (length (samples act)) - winlen) winstep) =
           nat ((int (length (samples act)) - winlen) div winstep) + 1 \<and>
         (\<exists>e. getTFConnectivity ext s m winlen winstep = (s, Inl e)) \<and>
         (cl' s = None \<and> 0 \<le> nfft' s \<and>
          windows_ok ext s act m winlen (py_range (int (length (samples act)) - winlen) winstep)
          \<longrightarrow> getTFConnectivity ext s m winlen winstep = (s, Inl IndexError))"
proof (intro conjI impI)
  let ?stop = "int (length (samples act)) - winlen"
  let ?ns = "py_range ?stop winstep"
  let ?Nstep = "?stop div winstep"
  from wl have stop: "0 < ?stop" by simp
  show count: "length ?ns = nat ?Nstep + 1"
    using ws stop nd by (rule py_range_count_not_dvd)
  then have ne: "?ns \<noteq> []" by auto
  have "\<exists>e. snd (getTFConnectivity ext s m winlen winstep) = Inl e"
  proof (cases "snd (getTFConnectivity ext s m winlen winstep)")
    case (Inl e)
    then show ?thesis by blast
  next
    case (Inr out)
    then have run: "getTFConnectivity ext s m winlen winstep = (s, Inr out)"
      by (simp add: prod_eq_iff fst_getTFConnectivity)
    from cls have "length ?ns \<le> nat ?Nstep"
    proof
      assume cl: "cl' s = None"
      from getTF_single_count [OF act cl run] show ?thesis .
    next
      assume "\<exists>cl. cl' s = Some cl \<and> cl \<noteq> []"
      then obtain cl where cl: "cl' s = Some cl" "cl \<noteq> []" by blast
      from getTF_classes_count [OF act cl run] show ?thesis .
    qed
    with count show ?thesis by simp
  qed
  then show "\<exists>e. getTFConnectivity ext s m winlen winstep = (s, Inl e)"
    by (simp add: prod_eq_iff fst_getTFConnectivity)
  assume "cl' s = None \<and> 0 \<le> nfft' s \<and> windows_ok ext s act m winlen ?ns"
  then have ok: "cl' s = None \<and> 0 \<le> nfft' s \<and>
          (\<forall>n \<in> set ?ns.
             \<exists>win B C r r'.
               take_rows act (arange_plus winlen n) = Inr win \<and>
               var_fit ext win (var_order' s) (var_delta' s) = Inr (B, C) \<and>
               getattr_call ext (Connectivity ext B C (nfft' s)) m = Inr r \<and>
               as_c64 ext (chans act) (nat (nfft' s)) r = Inr r')"
    by (simp add: windows_ok_iff)
  have q: "0 \<le> ?Nstep" using ws stop by (simp add: pos_imp_zdiv_nonneg_iff)
  define res0 :: "'f tfarray" where
    "res0 = \<lparr>tf_chans = chans act, tf_nfft = nat (nfft' s),
             tf_slots = replicate (nat ?Nstep) (zeros_c64 ext (chans act) (nat (nfft' s)))\<rparr>"
  have z: "np_zeros ext (chans act) ?Nstep (nfft' s) = Inr res0"
    using q ok by (simp add: np_zeros_def res0_def)
  have "getTF_loop ext s act m winlen ?ns 0 res0 = Inl IndexError"
  proof (rule getTF_loop_last_overflows [OF ne])
    show "length ?ns = length (tf_slots res0) + 1" using count by (simp add: res0_def)
    show "\<forall>n\<in>set ?ns. \<exists>win B C r r'.
          take_rows act (arange_plus winlen n) = Inr win \<and>
          var_fit ext win (var_order' s) (var_delta' s) = Inr (B, C) \<and>
          getattr_call ext (Connectivity ext B C (nfft' s)) m = Inr r \<and>
          as_c64 ext (tf_chans res0) (tf_nfft res0) r = Inr r'"
      using ok by (simp add: res0_def)
  qed
  with z act ok ws show "getTFConnectivity ext s m winlen winstep = (s, Inl IndexError)"
    by (simp add: getTFConnectivity_def shape3_def Let_def)
qed

text \<open>
  The theorem at the concrete object: five samples, \<open>winlen = 2\<close>, \<open>winstep = 2\<close>, so one
  slot and the two offsets 0 and 2.
\<close>

theorem getTFConnectivity_extra_window_witness:
  "activations' demo_s3 =
     Some \<lparr>chans = 1, trials = 2, samples = [[[1, 2]], [[3, 4]], [[5, 6]], [[7, 8]], [[9, 10]]]\<rparr> \<and>
   cl' demo_s3 = None \<and> nfft' demo_s3 = 1 \<and>
   (5 - 2) div 2 = (1::int) \<and> py_range (5 - 2) 2 = [0, 2] \<and>
   windows_ok demo_ext demo_s3
     \<lparr>chans = 1, trials = 2, samples = [[[1, 2]], [[3, 4]], [[5, 6]], [[7, 8]], [[9, 10]]]\<rparr>
     ''DTF'' 2 [0, 2] \<and>
   getTFConnectivity demo_ext demo_s3 ''DTF'' 2 2 = (demo_s3, Inl IndexError)"
proof -
  let ?act = "\<lparr>chans = 1, trials = 2,
                samples = [[[1, 2]], [[3, 4]], [[5, 6]], [[7, 8]], [[9, 10::int]]]\<rparr>"
  have act: "activations' demo_s3 = Some ?act" by code_simp
  have cl: "cl' demo_s3 = None" by code_simp
  have nf: "nfft' demo_s3 = 1" by code_simp
  have cls: "cl' demo_s3 = None \<or> (\<exists>cl. cl' demo_s3 = Some cl \<and> cl \<noteq> [])"
    using cl by blast
  have ws: "(0::int) < 2" by simp
  have wl: "(2::int) < int (length (samples ?act))" by simp
  have nd: "\<not> (2::int) dvd (int (length (samples ?act)) - 2)" by simp
  have d: "(5 - 2) div 2 = (1::int)" by simp
  have r: "py_range (5 - 2) 2 = [0, 2]" by code_simp
  have r': "py_range (int (length (samples ?act)) - 2) 2 = [0, 2]" by code_simp
  have ok: "windows_ok demo_ext demo_s3 ?act ''DTF'' 2 [0, 2]" by code_simp
  from getTFConnectivity_extra_window [OF act cls ws wl nd, of demo_ext "''DTF''"] cl nf r' ok
  have "getTFConnectivity demo_ext demo_s3 ''DTF'' 2 2 = (demo_s3, Inl IndexError)" by simp
  with act cl nf d r ok show ?thesis by blast
qed

text \<open>
  When the step divides \<open>N - winlen\<close> (with \<open>winlen \<le> N\<close>, no class labels, and every
  window going through), the call returns an array of \<open>Nstep\<close> slots, there are as many
  offsets as slots, offset \<open>i\<close> is \<open>i * winstep\<close>, and slot \<open>i\<close> holds the converted result
  for the samples \<open>[i * winstep, i * winstep + winlen)\<close>. With \<open>N = winlen\<close> there is no
  window and the result has no slot.
\<close>

theorem getTFConnectivity_full_windows:
  assumes act: "activations' s = Some act" and cl: "cl' s = None"
    and ws: "0 < winstep" and wl: "winlen \<le> int (length (samples act))"
    and dv: "winstep dvd (int (length (samples act)) - winlen)"
    and nf: "0 \<le> nfft' s"
    and ok: "windows_ok ext s act m winlen
               (py_range (int (length (samples act)) - winlen) winstep)"
  shows "\<exists>arr. getTFConnectivity ext s m winlen winstep = (s, Inr (Single arr)) \<and>
           tf_chans arr = chans act \<and> tf_nfft arr = nat (nfft' s) \<and>
           length (tf_slots arr) = nat ((int (length (samples act)) - winlen) div winstep) \<and>
           length (py_range (int (length (samples act)) - winlen) winstep) =
             length (tf_slots arr) \<and>
           (\<forall>i < length (tf_slots arr).
              py_range (int (length (samples act)) - winlen) winstep ! i = int i * winstep \<and>
              (\<exists>r. single_shot ext s
                     (act\<lparr>samples := take (nat winlen) (drop (i * nat winstep) (samples act))\<rparr>) m
                     = Inr (Single r) \<and>
                   as_c64 ext (chans act) (nat (nfft' s)) r = Inr (tf_slots arr ! i)))"
proof -
  let ?stop = "int (length (samples act)) - winlen"
  let ?ns = "py_range ?stop winstep"
  from getTF_full_windows [OF assms] obtain arr where
    run: "getTFConnectivity ext s m winlen winstep = (s, Inr (Single arr))" by blast
  from wl have stop: "0 \<le> ?stop" by simp
  have count: "length ?ns = nat (?stop div winstep)" using ws stop dv by (rule py_range_count_dvd)
  from getTF_single_slot [OF act cl run]
  have all: "tf_chans arr = chans act \<and> tf_nfft arr = nat (nfft' s) \<and>
      length (tf_slots arr) = nat (?stop div winstep) \<and>
      (\<forall>i < length ?ns. i < length (tf_slots arr) \<and>
              (\<exists>win r. take_rows act (arange_plus winlen (?ns ! i)) = Inr win \<and>
                 single_shot ext s win m = Inr (Single r) \<and>
                 as_c64 ext (chans act) (nat (nfft' s)) r = Inr (tf_slots arr ! i)))"
    by blast
  then have dims: "tf_chans arr = chans act" "tf_nfft arr = nat (nfft' s)"
      "length (tf_slots arr) = nat (?stop div winstep)"
    by blast+
  from all have slots: "\<forall>i < length ?ns. i < length (tf_slots arr) \<and>
              (\<exists>win r. take_rows act (arange_plus winlen (?ns ! i)) = Inr win \<and>
                 single_shot ext s win m = Inr (Single r) \<and>
                 as_c64 ext (chans act) (nat (nfft' s)) r = Inr (tf_slots arr ! i))"
    by blast
  have "?ns ! i = int i * winstep \<and>
        (\<exists>r. single_shot ext s
                (act\<lparr>samples := take (nat winlen) (drop (i * nat winstep) (samples act))\<rparr>) m
                = Inr (Single r) \<and>
              as_c64 ext (chans act) (nat (nfft' s)) r = Inr (tf_slots arr ! i))"
    if "i < length (tf_slots arr)" for i
  proof -
    from that count dims have i: "i < length ?ns" by simp
    with slots obtain win r where
      w: "take_rows act (arange_plus winlen (?ns ! i)) = Inr win" and
      r: "single_shot ext s win m = Inr (Single r)"
         "as_c64 ext (chans act) (nat (nfft' s)) r = Inr (tf_slots arr ! i)"
      by blast
    from w window_is_slice [OF i ws]
    have "win = act\<lparr>samples := take (nat winlen) (drop (i * nat winstep) (samples act))\<rparr>"
      by simp
    with r nth_py_range [OF i] show ?thesis by blast
  qed
  with run dims count show ?thesis by simp
qed

text \<open>The theorem at the concrete object, with three windows and with none.\<close>

theorem getTFConnectivity_full_windows_witness:
  "activations' demo_s3 =
     Some \<lparr>chans = 1, trials = 2, samples = [[[1, 2]], [[3, 4]], [[5, 6]], [[7, 8]], [[9, 10]]]\<rparr> \<and>
   cl' demo_s3 = None \<and> nfft' demo_s3 = 1 \<and>
   py_range (5 - 2) 1 = [0, 1, 2] \<and>
   windows_ok demo_ext demo_s3
     \<lparr>chans = 1, trials = 2, samples = [[[1, 2]], [[3, 4]], [[5, 6]], [[7, 8]], [[9, 10]]]\<rparr>
     ''DTF'' 2 [0, 1, 2] \<and>
   getTFConnectivity demo_ext demo_s3 ''DTF'' 2 1 =
     (demo_s3, Inr (Single \<lparr>tf_chans = 1, tf_nfft = 1, tf_slots = [1, 3, 5]\<rparr>)) \<and>
   py_range (5 - 5) 1 = [] \<and>
   getTFConnectivity demo_ext demo_s3 ''DTF'' 5 1 =
     (demo_s3, Inr (Single \<lparr>tf_chans = 1, tf_nfft = 1, tf_slots = []\<rparr>))"
proof -
  let ?act = "\<lparr>chans = 1, trials = 2,
                samples = [[[1, 2]], [[3, 4]], [[5, 6]], [[7, 8]], [[9, 10::int]]]\<rparr>"
  have act: "activations' demo_s3 = Some ?act" by code_simp
  have cl: "cl' demo_s3 = None" by code_simp
  have nf: "nfft' demo_s3 = 1" by code_simp
  have nf0: "0 \<le> nfft' demo_s3" by (simp add: nf)
  have ws: "(0::int) < 1" by simp
  have wl2: "(2::int) \<le> int (length (samples ?act))" by simp
  have wl5: "(5::int) \<le> int (length (samples ?act))" by simp
  have dv2: "(1::int) dvd (int (length (samples ?act)) - 2)" by simp
  have dv5: "(1::int) dvd (int (length (samples ?act)) - 5)" by simp
  have r2: "py_range (5 - 2) 1 = [0, 1, 2]" by code_simp
  have r5: "py_range (5 - 5) 1 = []" by code_simp
  have ok2: "windows_ok demo_ext demo_s3 ?act ''DTF'' 2 [0, 1, 2]" by code_simp
  have ok2': "windows_ok demo_ext demo_s3 ?act ''DTF'' 2
                (py_range (int (length (samples ?act)) - 2) 1)" by code_simp
  have ok5': "windows_ok demo_ext demo_s3 ?act ''DTF'' 5
                (py_range (int (length (samples ?act)) - 5) 1)" by code_simp
  have e2: "snd (getTFConnectivity demo_ext demo_s3 ''DTF'' 2 1) =
              Inr (Single \<lparr>tf_chans = 1, tf_nfft = 1, tf_slots = [1, 3, 5]\<rparr>)" by code_simp
  have e5: "snd (getTFConnectivity demo_ext demo_s3 ''DTF'' 5 1) =
              Inr (Single \<lparr>tf_chans = 1, tf_nfft = 1, tf_slots = []\<rparr>)" by code_simp
  from getTFConnectivity_full_windows [OF act cl ws wl2 dv2 nf0 ok2'] e2
  have g2: "getTFConnectivity demo_ext demo_s3 ''DTF'' 2 1 =
     (demo_s3, Inr (Single \<lparr>tf_chans = 1, tf_nfft = 1, tf_slots = [1, 3, 5]\<rparr>))" by auto
  from getTFConnectivity_full_windows [OF act cl ws wl5 dv5 nf0 ok5'] e5
  have g5: "getTFConnectivity demo_ext demo_s3 ''DTF'' 5 1 =
     (demo_s3, Inr (Single \<lparr>tf_chans = 1, tf_nfft = 1, tf_slots = []\<rparr>))" by auto
  from act cl nf r2 ok2 g2 r5 g5 show ?thesis by blast
qed

subsection \<open>Every window on its own\<close>

text \<open>
  Claim C2, as amended. When \<open>getTFConnectivity\<close> returns, then for every window index
  \<open>i\<close>, with the offset \<open>n\<close> of that window: the window is a slice of the activations (for
  a positive step the samples \<open>[n, n + winlen)\<close>, all channels and trials, \<open>n = i * winstep\<close>);
  the path for one window on its own, run on that slice with the same class labels and
  configuration, returns a result \<open>r\<close> (one result with no class labels, one for every
  distinct label otherwise); and slot \<open>i\<close> of the output (of the output of every label)
  holds \<open>r\<close> converted to the element type of the output array, single precision complex.
  Nothing of an earlier window enters: the slot is a function of the slice alone.
\<close>

theorem window_independence:
  assumes act: "activations' s = Some act"
    and run: "getTFConnectivity ext s m winlen winstep = (s', Inr out)"
    and i: "i < length (py_range (int (length (samples act)) - winlen) winstep)"
  shows "\<exists>win.
      take_rows act
        (arange_plus winlen (py_range (int (length (samples act)) - winlen) winstep ! i)) = Inr win \<and>
      (0 < winstep \<longrightarrow>
         win = act\<lparr>samples := take (nat winlen) (drop (i * nat winstep) (samples act))\<rparr>) \<and>
      (case out of
         Single arr \<Rightarrow>
           cl' s = None \<and> i < length (tf_slots arr) \<and>
           (\<exists>r. single_shot ext s win m = Inr (Single r) \<and>
                as_c64 ext (chans act) (nat (nfft' s)) r = Inr (tf_slots arr ! i))
       | PerClass d \<Rightarrow>
           (\<exists>cl rs. cl' s = Some cl \<and> single_shot ext s win m = Inr (PerClass rs) \<and>
              map fst d = unique cl \<and> map fst rs = unique cl \<and>
              (\<forall>c \<in> set cl. \<exists>arr r. map_of d c = Some arr \<and> map_of rs c = Some r \<and>
                 i < length (tf_slots arr) \<and>
                 as_c64 ext (chans act) (nat (nfft' s)) r = Inr (tf_slots arr ! i))))"
proof (cases "cl' s")
  case None
  from getTF_single_slot [OF act None run] i obtain arr win r where
    "out = Single arr" "i < length (tf_slots arr)"
    "take_rows act (arange_plus winlen
       (py_range (int (length (samples act)) - winlen) winstep ! i)) = Inr win"
    "single_shot ext s win m = Inr (Single r)"
    "as_c64 ext (chans act) (nat (nfft' s)) r = Inr (tf_slots arr ! i)"
    by blast
  with None window_is_slice [OF i] show ?thesis by auto
next
  case (Some cl)
  from getTF_classes_slot [OF act Some run] i obtain d win rs where
    "out = PerClass d" "map fst d = unique cl"
    "take_rows act (arange_plus winlen
       (py_range (int (length (samples act)) - winlen) winstep ! i)) = Inr win"
    "single_shot ext s win m = Inr (PerClass rs)" "map fst rs = unique cl"
    "\<forall>c \<in> set cl. \<exists>arr r. map_of d c = Some arr \<and> map_of rs c = Some r \<and>
                   i < length (tf_slots arr) \<and>
                   as_c64 ext (chans act) (nat (nfft' s)) r = Inr (tf_slots arr ! i)"
    by blast
  with Some window_is_slice [OF i] show ?thesis by auto
qed

text \<open>The theorem at the concrete objects, without and with class labels, for window 1.\<close>

theorem window_independence_witness:
  "activations' demo_s3 =
     Some \<lparr>chans = 1, trials = 2, samples = [[[1, 2]], [[3, 4]], [[5, 6]], [[7, 8]], [[9, 10]]]\<rparr> \<and>
   getTFConnectivity demo_ext demo_s3 ''DTF'' 2 1 =
     (demo_s3, Inr (Single \<lparr>tf_chans = 1, tf_nfft = 1, tf_slots = [1, 3, 5]\<rparr>)) \<and>
   (1::nat) < length (py_range (5 - 2) 1) \<and>
   single_shot demo_ext demo_s3 \<lparr>chans = 1, trials = 2, samples = [[[3, 4]], [[5, 6]]]\<rparr> ''DTF''
     = Inr (Single 3) \<and>
   as_c64 demo_ext 1 1 3 = Inr 3 \<and>
   activations' demo_s3c =
     Some \<lparr>chans = 1, trials = 2, samples = [[[1, 2]], [[3, 4]], [[5, 6]], [[7, 8]], [[9, 10]]]\<rparr> \<and>
   getTFConnectivity demo_ext demo_s3c ''DTF'' 2 1 =
     (demo_s3c, Inr (PerClass [(0, \<lparr>tf_chans = 1, tf_nfft = 1, tf_slots = [1, 3, 5]\<rparr>),
                               (1, \<lparr>tf_chans = 1, tf_nfft = 1, tf_slots = [2, 6, 10]\<rparr>)])) \<and>
   single_shot demo_ext demo_s3c \<lparr>chans = 1, trials = 2, samples = [[[3, 4]], [[5, 6]]]\<rparr> ''DTF''
     = Inr (PerClass [(0, 3), (1, 6)]) \<and>
   as_c64 demo_ext 1 1 6 = Inr 6"
proof -
  let ?act = "\<lparr>chans = 1, trials = 2,
                samples = [[[1, 2]], [[3, 4]], [[5, 6]], [[7, 8]], [[9, 10::int]]]\<rparr>"
  let ?win = "\<lparr>chans = 1, trials = 2, samples = [[[3, 4]], [[5, 6::int]]]\<rparr>"
  let ?out = "Single \<lparr>tf_chans = 1, tf_nfft = 1, tf_slots = [1, 3, 5::rat]\<rparr>
                :: (nat, rat tfarray) fitted"
  let ?outc = "PerClass [(0::nat, \<lparr>tf_chans = 1, tf_nfft = 1, tf_slots = [1, 3, 5::rat]\<rparr>),
                         (1, \<lparr>tf_chans = 1, tf_nfft = 1, tf_slots = [2, 6, 10]\<rparr>)]"
  have act: "activations' demo_s3 = Some ?act" by code_simp
  have actc: "activations' demo_s3c = Some ?act" by code_simp
  have nf: "nfft' demo_s3 = 1" by code_simp
  have nfc: "nfft' demo_s3c = 1" by code_simp
  have clc: "cl' demo_s3c = Some [1, 0]" by code_simp
  have run: "getTFConnectivity demo_ext demo_s3 ''DTF'' 2 1 = (demo_s3, Inr ?out)"
    by (simp add: prod_eq_iff fst_getTFConnectivity) code_simp
  have runc: "getTFConnectivity demo_ext demo_s3c ''DTF'' 2 1 = (demo_s3c, Inr ?outc)"
    by (simp add: prod_eq_iff fst_getTFConnectivity) code_simp
  have i: "(1::nat) < length (py_range (int (length (samples ?act)) - 2) 1)" by code_simp
  have i': "(1::nat) < length (py_range (5 - 2) 1)" by code_simp
  have w: "take_rows ?act (arange_plus 2 (py_range (int (length (samples ?act)) - 2) 1 ! 1))
             = Inr ?win" by code_simp
  have ss: "single_shot demo_ext demo_s3 ?win ''DTF'' = Inr (Single 3)" by code_simp
  have ssc: "single_shot demo_ext demo_s3c ?win ''DTF'' = Inr (PerClass [(0, 3), (1, 6)])"
    by code_simp
  from window_independence [OF act run i] w ss nf
  have c: "as_c64 demo_ext 1 1 3 = Inr 3" by auto
  from window_independence [OF actc runc i] w ssc
  have "\<forall>c \<in> set [1, 0::nat]. \<exists>arr r.
          map_of [(0::nat, \<lparr>tf_chans = 1, tf_nfft = 1, tf_slots = [1, 3, 5::rat]\<rparr>),
                  (1, \<lparr>tf_chans = 1, tf_nfft = 1, tf_slots = [2, 6, 10]\<rparr>)] c = Some arr \<and>
          map_of [(0::nat, 3::rat), (1, 6)] c = Some r \<and> 1 < length (tf_slots arr) \<and>
          as_c64 demo_ext (chans ?act) (nat (nfft' demo_s3c)) r = Inr (tf_slots arr ! 1)"
    using clc by auto
  then have cc: "as_c64 demo_ext 1 1 6 = Inr 6" using nfc by auto
  from act run i' ss c actc runc ssc cc show ?thesis by blast
qed

text \<open>
  The slot is the converted result, not the result: the single precision conversion is
  not the identity. The measure \<open>PDC\<close> of the first window is \<open>1 + 1 / 2 ^ 30\<close> on the path
  for one window, and the slot of the sliding window call holds 1.
\<close>

theorem window_bit_identity_counterexample:
  "getTFConnectivity demo_ext demo_s3 ''PDC'' 2 1 =
     (demo_s3, Inr (Single \<lparr>tf_chans = 1, tf_nfft = 1, tf_slots = [1, 1, 1]\<rparr>)) \<and>
   activations' demo_s3 =
     Some \<lparr>chans = 1, trials = 2, samples = [[[1, 2]], [[3, 4]], [[5, 6]], [[7, 8]], [[9, 10]]]\<rparr> \<and>
   single_shot demo_ext demo_s3 \<lparr>chans = 1, trials = 2, samples = [[[1, 2]], [[3, 4]]]\<rparr> ''PDC''
     = Inr (Single (1073741825 / 1073741824)) \<and>
   (1::rat) \<noteq> 1073741825 / 1073741824"
proof -
  have "snd (getTFConnectivity demo_ext demo_s3 ''PDC'' 2 1) =
          Inr (Single \<lparr>tf_chans = 1, tf_nfft = 1, tf_slots = [1, 1, 1]\<rparr>)" by code_simp
  then have 1: "getTFConnectivity demo_ext demo_s3 ''PDC'' 2 1 =
     (demo_s3, Inr (Single \<lparr>tf_chans = 1, tf_nfft = 1, tf_slots = [1, 1, 1]\<rparr>))"
    by (simp add: prod_eq_iff fst_getTFConnectivity)
  have 2: "activations' demo_s3 =
     Some \<lparr>chans = 1, trials = 2, samples = [[[1, 2]], [[3, 4]], [[5, 6]], [[7, 8]], [[9, 10]]]\<rparr>"
    by code_simp
  have 3: "single_shot demo_ext demo_s3 \<lparr>chans = 1, trials = 2, samples = [[[1, 2]], [[3, 4]]]\<rparr>
             ''PDC'' = Inr (Single (1073741825 / 1073741824))" by code_simp
  have 4: "(1::rat) \<noteq> 1073741825 / 1073741824" by simp
  from 1 2 3 4 show ?thesis by blast
qed

subsection \<open>A window whose fit fails\<close>

text \<open>
  Claim C9. \<open>getTFConnectivity\<close> returns the object as it was, whatever the outcome. When
  the fit of the window at some offset of the call fails, the call raises: its outcome is
  an error and no array. When the loop over the offsets before that one went through, the
  error of the call is the error of the fit, as it is. This holds with and without class
  labels.
\<close>

theorem getTFConnectivity_fit_failure:
  assumes act: "activations' s = Some act" and ws: "winstep \<noteq> 0"
    and offs: "py_range (int (length (samples act)) - winlen) winstep = pre @ n # post"
    and w: "take_rows act (arange_plus winlen n) = Inr win"
    and fail: "(cl' s = None \<and> var_fit ext win (var_order' s) (var_delta' s) = Inl e) \<or>
               (\<exists>cl. cl' s = Some cl \<and>
                     var_fit_multiclass ext win cl (var_order' s) (var_delta' s) = Inl e)"
  shows "fst (getTFConnectivity ext s m winlen winstep) = s \<and>
         (\<exists>e'. snd (getTFConnectivity ext s m winlen winstep) = Inl e') \<and>
         (\<forall>res0 res1.
            cl' s = None \<and>
            np_zeros ext (chans act) ((int (length (samples act)) - winlen) div winstep) (nfft' s)
              = Inr res0 \<and>
            getTF_loop ext s act m winlen pre 0 res0 = Inr res1 \<longrightarrow>
            snd (getTFConnectivity ext s m winlen winstep) = Inl e) \<and>
         (\<forall>cl res0 res1.
            cl' s = Some cl \<and>
            getTF_init ext (chans act) ((int (length (samples act)) - winlen) div winstep) (nfft' s)
              (unique cl) [] = Inr res0 \<and>
            getTF_loop_classes ext s act cl m winlen pre 0 res0 = Inr res1 \<longrightarrow>
            snd (getTFConnectivity ext s m winlen winstep) = Inl e)"
proof (intro conjI allI impI)
  show "fst (getTFConnectivity ext s m winlen winstep) = s"
    by (rule fst_getTFConnectivity)
next
  let ?ns = "py_range (int (length (samples act)) - winlen) winstep"
  have n: "n \<in> set ?ns" by (simp add: offs)
  show "\<exists>e'. snd (getTFConnectivity ext s m winlen winstep) = Inl e'"
  proof (cases "cl' s")
    case None
    with fail have "var_fit ext win (var_order' s) (var_delta' s) = Inl e" by simp
    from getTF_loop_fit_fails [OF n w this]
    have L: "\<exists>e'. getTF_loop ext s act m winlen ?ns 0 res = Inl e'" for res by blast
    show ?thesis
    proof (cases "np_zeros ext (chans act)
                    ((int (length (samples act)) - winlen) div winstep) (nfft' s)")
      case (Inl e0)
      then show ?thesis
        using act ws None by (simp add: getTFConnectivity_def shape3_def Let_def)
    next
      case (Inr res0)
      from L [of res0] obtain e' where "getTF_loop ext s act m winlen ?ns 0 res0 = Inl e'"
        by blast
      with Inr show ?thesis
        using act ws None by (simp add: getTFConnectivity_def shape3_def Let_def)
    qed
  next
    case (Some cl)
    with fail have "var_fit_multiclass ext win cl (var_order' s) (var_delta' s) = Inl e" by simp
    from getTF_loop_classes_fit_fails [OF n w this]
    have L: "\<exists>e'. getTF_loop_classes ext s act cl m winlen ?ns 0 res = Inl e'" for res
      by blast
    show ?thesis
    proof (cases "getTF_init ext (chans act)
                    ((int (length (samples act)) - winlen) div winstep) (nfft' s) (unique cl) []")
      case (Inl e0)
      then show ?thesis
        using act ws Some by (simp add: getTFConnectivity_def shape3_def Let_def)
    next
      case (Inr res0)
      from L [of res0] obtain e' where
        "getTF_loop_classes ext s act cl m winlen ?ns 0 res0 = Inl e'" by blast
      with Inr show ?thesis
        using act ws Some by (simp add: getTFConnectivity_def shape3_def Let_def)
    qed
  qed
next
  fix res0 res1
  assume a: "cl' s = None \<and>
            np_zeros ext (chans act) ((int (length (samples act)) - winlen) div winstep) (nfft' s)
              = Inr res0 \<and>
            getTF_loop ext s act m winlen pre 0 res0 = Inr res1"
  with fail have f: "var_fit ext win (var_order' s) (var_delta' s) = Inl e" by simp
  have "getTF_loop ext s act m winlen (pre @ n # post) 0 res0 = Inl e"
    using a w f by (simp add: getTF_loop_append)
  then show "snd (getTFConnectivity ext s m winlen winstep) = Inl e"
    using act ws a offs by (simp add: getTFConnectivity_def shape3_def Let_def)
next
  fix cl res0 res1
  assume a: "cl' s = Some cl \<and>
            getTF_init ext (chans act) ((int (length (samples act)) - winlen) div winstep) (nfft' s)
              (unique cl) [] = Inr res0 \<and>
            getTF_loop_classes ext s act cl m winlen pre 0 res0 = Inr res1"
  with fail have f: "var_fit_multiclass ext win cl (var_order' s) (var_delta' s) = Inl e" by simp
  have "getTF_loop_classes ext s act cl m winlen (pre @ n # post) 0 res0 = Inl e"
    using a w f by (simp add: getTF_loop_classes_append)
  then show "snd (getTFConnectivity ext s m winlen winstep) = Inl e"
    using act ws a offs by (simp add: getTFConnectivity_def shape3_def Let_def)
qed

text \<open>
  The theorem at the concrete object whose third sample makes the fit fail: the windows at
  the offsets 0 and 1 go through, the one at offset 2 fails, and the call raises that
  error.
\<close>

theorem getTFConnectivity_fit_failure_witness:
  "activations' demo_s4 =
     Some \<lparr>chans = 1, trials = 2, samples = [[[1, 2]], [[3, 4]], [[-5, 6]], [[7, 8]], [[9, 10]]]\<rparr> \<and>
   cl' demo_s4 = None \<and>
   py_range (5 - 2) 1 = [0, 1] @ 2 # [] \<and>
   var_fit demo_ext \<lparr>chans = 1, trials = 2, samples = [[[-5, 6]], [[7, 8]]]\<rparr> 2 None =
     Inl (ComputationError ''ill-conditioned'') \<and>
   getTFConnectivity demo_ext demo_s4 ''DTF'' 2 1 =
     (demo_s4, Inl (ComputationError ''ill-conditioned''))"
proof -
  let ?act = "\<lparr>chans = 1, trials = 2,
                samples = [[[1, 2]], [[3, 4]], [[-5, 6]], [[7, 8]], [[9, 10::int]]]\<rparr>"
  let ?win = "\<lparr>chans = 1, trials = 2, samples = [[[-5, 6]], [[7, 8::int]]]\<rparr>"
  let ?res0 = "\<lparr>tf_chans = 1, tf_nfft = 1, tf_slots = [0, 0, 0::rat]\<rparr>"
  let ?res1 = "\<lparr>tf_chans = 1, tf_nfft = 1, tf_slots = [1, 3, 0::rat]\<rparr>"
  have act: "activations' demo_s4 = Some ?act" by code_simp
  have cl: "cl' demo_s4 = None" by code_simp
  have offs: "py_range (int (length (samples ?act)) - 2) 1 = [0, 1] @ 2 # []" by code_simp
  have offs': "py_range (5 - 2) 1 = [0, 1] @ 2 # []" by code_simp
  have w: "take_rows ?act (arange_plus 2 2) = Inr ?win" by code_simp
  have f: "var_fit demo_ext ?win (var_order' demo_s4) (var_delta' demo_s4) =
             Inl (ComputationError ''ill-conditioned'')" by code_simp
  have f': "var_fit demo_ext ?win 2 None = Inl (ComputationError ''ill-conditioned'')"
    by code_simp
  have z: "np_zeros demo_ext (chans ?act) ((int (length (samples ?act)) - 2) div 1)
             (nfft' demo_s4) = Inr ?res0" by code_simp
  have l: "getTF_loop demo_ext demo_s4 ?act ''DTF'' 2 [0, 1] 0 ?res0 = Inr ?res1" by code_simp
  have ws: "(1::int) \<noteq> 0" by simp
  from cl f have fail:
    "(cl' demo_s4 = None \<and>
      var_fit demo_ext ?win (var_order' demo_s4) (var_delta' demo_s4) =
        Inl (ComputationError ''ill-conditioned'')) \<or>
     (\<exists>cl. cl' demo_s4 = Some cl \<and>
        var_fit_multiclass demo_ext ?win cl (var_order' demo_s4) (var_delta' demo_s4) =
          Inl (ComputationError ''ill-conditioned''))" by blast
  from getTFConnectivity_fit_failure [OF act ws offs w fail, of "''DTF''"] cl z l
  have "fst (getTFConnectivity demo_ext demo_s4 ''DTF'' 2 1) = demo_s4 \<and>
        snd (getTFConnectivity demo_ext demo_s4 ''DTF'' 2 1) =
          Inl (ComputationError ''ill-conditioned'')" by blast
  then have "getTFConnectivity demo_ext demo_s4 ''DTF'' 2 1 =
     (demo_s4, Inl (ComputationError ''ill-conditioned''))"
    by (simp add: prod_eq_iff)
  with act cl offs' f' show ?thesis by blast
qed

subsection \<open>The concrete objects are reachable\<close>




lemma demo_fit_multiclass_keys: "fit_multiclass_keys demo_ext"
  by (auto simp add: fit_multiclass_keys_def demo_ext_def demo_fit_multiclass_def set_unique
      image_image split: if_splits)

subsection \<open>One form for the model, the covariance and the connectivity\<close>

lemma fitVAR_classes_Inr:
  assumes ok: "snd (fitVAR ext s) = Inr ()" and cl: "cl' s = Some cl"
  shows "\<exists>act B C con.
           activations' s = Some act \<and>
           var_fit_multiclass ext act cl (var_order' s) (var_delta' s) = Inr (B, C) \<and>
           fitVAR_loop ext B C (nfft' s) (unique cl) [] = (con, Inr ()) \<and>
           fst (fitVAR ext s) =
             s\<lparr>var_model' := Some (PerClass B), var_cov' := Some (PerClass C),
                connectivity' := Some (PerClass con)\<rparr>"
  using assms
  by (auto simp add: fitVAR_def Let_def split: option.splits sum.splits prod.splits)

text \<open>
  Claim C5. After a \<open>doMVARICA\<close> that returned, the VAR model, the noise covariance and the
  connectivity model are all single objects, whether or not there are class labels. After a
  \<open>fitVAR\<close> that returned they are all single objects when there are no class labels; with
  class labels \<open>cl\<close> they are all dictionaries, the connectivity dictionary has exactly the
  keys \<open>np.unique(cl)\<close> in that order, and the two fitted dictionaries have at least these
  keys. With a fitter whose dictionaries are keyed by the distinct labels, all three key
  sets are the set of the distinct labels. A fit does not change the class labels.
\<close>

theorem fit_mode_consistency:
  "(snd (doMVARICA ext s) = Inr () \<longrightarrow>
      all_single (fst (doMVARICA ext s)) \<and> cl' (fst (doMVARICA ext s)) = cl' s) \<and>
   (snd (fitVAR ext s) = Inr () \<and> cl' s = None \<longrightarrow>
      all_single (fst (fitVAR ext s)) \<and> cl' (fst (fitVAR ext s)) = None) \<and>
   (\<forall>cl. snd (fitVAR ext s) = Inr () \<and> cl' s = Some cl \<longrightarrow>
      cl' (fst (fitVAR ext s)) = Some cl \<and>
      (\<exists>B C con.
         var_model' (fst (fitVAR ext s)) = Some (PerClass B) \<and>
         var_cov' (fst (fitVAR ext s)) = Some (PerClass C) \<and>
         connectivity' (fst (fitVAR ext s)) = Some (PerClass con) \<and>
         map fst con = unique cl \<and> set cl \<subseteq> fst ` set B \<and> set cl \<subseteq> fst ` set C) \<and>
      (fit_multiclass_keys ext \<longrightarrow> all_class_mapped (fst (fitVAR ext s)) (set cl)))"
proof (intro conjI allI impI)
  assume "snd (doMVARICA ext s) = Inr ()"
  then show "all_single (fst (doMVARICA ext s))"
    by (auto simp add: doMVARICA_def all_single_def Let_def
        split: option.splits sum.splits prod.splits if_splits)
  show "cl' (fst (doMVARICA ext s)) = cl' s"
    by (simp add: doMVARICA_def Let_def split: option.splits sum.splits prod.splits)
next
  assume a: "snd (fitVAR ext s) = Inr () \<and> cl' s = None"
  then show "all_single (fst (fitVAR ext s))"
    by (auto simp add: fitVAR_def all_single_def split: option.splits sum.splits prod.splits)
  from a show "cl' (fst (fitVAR ext s)) = None"
    by (auto simp add: fitVAR_def split: option.splits sum.splits prod.splits)
next
  fix cl
  assume a: "snd (fitVAR ext s) = Inr () \<and> cl' s = Some cl"
  then have ok: "snd (fitVAR ext s) = Inr ()" and cl: "cl' s = Some cl" by simp_all
  from fitVAR_classes_Inr [OF ok cl] obtain act B C con where
    fit: "var_fit_multiclass ext act cl (var_order' s) (var_delta' s) = Inr (B, C)" and
    loop: "fitVAR_loop ext B C (nfft' s) (unique cl) [] = (con, Inr ())" and
    s': "fst (fitVAR ext s) =
           s\<lparr>var_model' := Some (PerClass B), var_cov' := Some (PerClass C),
              connectivity' := Some (PerClass con)\<rparr>"
    by blast
  from fitVAR_loop_Inr [OF loop distinct_unique]
  have keys: "map fst con = unique cl"
    and each: "\<forall>c \<in> set cl. \<exists>b cv. map_of B c = Some b \<and> map_of C c = Some cv \<and>
                 map_of con c = Some (Connectivity ext b cv (nfft' s))"
    by (simp_all add: set_unique)
  have sub: "set cl \<subseteq> fst ` set B" "set cl \<subseteq> fst ` set C"
  proof -
    have "c \<in> fst ` set B \<and> c \<in> fst ` set C" if "c \<in> set cl" for c
    proof -
      from each that obtain b cv where "map_of B c = Some b" "map_of C c = Some cv" by blast
      then show ?thesis using map_of_keys [of B c] map_of_keys [of C c] by simp
    qed
    then show "set cl \<subseteq> fst ` set B" "set cl \<subseteq> fst ` set C" by blast+
  qed
  show "cl' (fst (fitVAR ext s)) = Some cl" using s' cl by simp
  show "\<exists>B C con.
         var_model' (fst (fitVAR ext s)) = Some (PerClass B) \<and>
         var_cov' (fst (fitVAR ext s)) = Some (PerClass C) \<and>
         connectivity' (fst (fitVAR ext s)) = Some (PerClass con) \<and>
         map fst con = unique cl \<and> set cl \<subseteq> fst ` set B \<and> set cl \<subseteq> fst ` set C"
    using s' keys sub by simp
  assume "fit_multiclass_keys ext"
  with fit have "fst ` set B = set cl" "fst ` set C = set cl"
    unfolding fit_multiclass_keys_def by blast+
  moreover have "fst ` set con = set cl"
  proof -
    have "fst ` set con = set (map fst con)" by simp
    also have "\<dots> = set cl" by (simp only: keys set_unique)
    finally show ?thesis .
  qed
  ultimately show "all_class_mapped (fst (fitVAR ext s)) (set cl)"
    using s' by (simp add: all_class_mapped_def)
qed

text \<open>
  The theorem at the concrete objects: a decomposition with class labels present, a fit
  without class labels and a fit with the labels 1 and 0.
\<close>

theorem fit_mode_consistency_witness:
  "cl' demo_s1c = Some [1, 0] \<and> snd (doMVARICA demo_ext demo_s1c) = Inr () \<and>
   all_single (fst (doMVARICA demo_ext demo_s1c)) \<and>
   cl' demo_s3 = None \<and> snd (fitVAR demo_ext demo_s3) = Inr () \<and>
   all_single (fst (fitVAR demo_ext demo_s3)) \<and>
   cl' demo_s3c = Some [1, 0] \<and> snd (fitVAR demo_ext demo_s3c) = Inr () \<and>
   fit_multiclass_keys demo_ext \<and>
   all_class_mapped (fst (fitVAR demo_ext demo_s3c)) {0, 1}"
proof -
  have c1: "cl' demo_s1c = Some [1, 0]" by code_simp
  have d1: "snd (doMVARICA demo_ext demo_s1c) = Inr ()" by code_simp
  have c3: "cl' demo_s3 = None" by code_simp
  have f3: "snd (fitVAR demo_ext demo_s3) = Inr ()" by code_simp
  have c3c: "cl' demo_s3c = Some [1, 0]" by code_simp
  have f3c: "snd (fitVAR demo_ext demo_s3c) = Inr ()" by code_simp
  note k = demo_fit_multiclass_keys
  have st: "set [1, 0::nat] = {0, 1}" by auto
  from fit_mode_consistency [of demo_ext demo_s1c] d1
  have a1: "all_single (fst (doMVARICA demo_ext demo_s1c))" by blast
  from fit_mode_consistency [of demo_ext demo_s3] f3 c3
  have a3: "all_single (fst (fitVAR demo_ext demo_s3))" by blast
  from fit_mode_consistency [of demo_ext demo_s3c] f3c c3c k
  have "all_class_mapped (fst (fitVAR demo_ext demo_s3c)) (set [1, 0])" by blast
  then have a3c: "all_class_mapped (fst (fitVAR demo_ext demo_s3c)) {0, 1}" by (simp only: st)
  from c1 d1 a1 c3 f3 a3 c3c f3c k a3c show ?thesis by blast
qed

subsection \<open>Asking for a measure\<close>







subsection \<open>The cached scalp maps\<close>




lemma doMVARICA_plot_frame:
  "locations' (fst (doMVARICA ext s)) = locations' s \<and> topo' (fst (doMVARICA ext s)) = topo' s"
  by (simp add: doMVARICA_def Let_def split: option.splits sum.splits prod.splits)









end
